theory Spec2Isabelle
  imports Complex_Main "HOL-Library.Word"
begin

section \<open>The quote calculation engine of signquote-pro\<close>

text \<open>
  This theory embeds \<^verbatim>\<open>calculateQuote\<close> of \<^verbatim>\<open>src/utils/pricing.ts\<close> (the entry point the
  specification calls \<^verbatim>\<open>computeQuote\<close>) together with the types it reads and returns.

  Conventions of the embedding:
  \<^item> a JavaScript \<^verbatim>\<open>number\<close> is a \<^typ>\<open>real\<close>: arithmetic is exact, so rounding, \<^verbatim>\<open>NaN\<close>
    and the infinities are outside the model;
  \<^item> the string enums \<^verbatim>\<open>SignType\<close>, \<^verbatim>\<open>LightingType\<close> and the union \<^verbatim>\<open>liftType\<close> are
    strings, as they are at run time, and the code compares them with \<^verbatim>\<open>===\<close>;
  \<^item> the sign text is a list of UTF-16 code units, which is what \<^verbatim>\<open>.length\<close> counts;
  \<^item> \<^verbatim>\<open>PRICING\<close> comes from \<^verbatim>\<open>../constants\<close>, which is not among the sources, so the
    pricing table is a parameter of every function;
  \<^item> each line item is one constructor per template literal of the source, carrying the
    interpolated values in their order of appearance; amounts are the values handed to
    \<^verbatim>\<open>toFixed\<close>, before display rounding;
  \<^item> on arguments of the declared types the only way the code can throw is the read of
    \<^verbatim>\<open>tier.hours\<close> when the tier table is empty and \<^verbatim>\<open>tier\<close> is \<^verbatim>\<open>undefined\<close>;
  \<^item> the one function of the source is cut into its blocks (the three branches up to the
    floor, the floor, the dispatch, the rush order, the installation, the totals), each a
    definition that threads \<^verbatim>\<open>rawCost\<close>, \<^verbatim>\<open>fabCost\<close> and the line items as the source
    updates them.
\<close>

subsection \<open>Types\<close>

type_synonym jsstring = "16 word list"

definition CHANNEL_LETTERS :: string where "CHANNEL_LETTERS = ''Channel Letters''"
definition LIGHTBOX :: string where "LIGHTBOX = ''Lightbox''"
definition WINDOW_VINYL :: string where "WINDOW_VINYL = ''Window Vinyl''"

definition NON_LIT :: string where "NON_LIT = ''NON_LIT''"
definition FRONT_LIT :: string where "FRONT_LIT = ''FRONT_LIT''"
definition BACK_LIT :: string where "BACK_LIT = ''BACK_LIT''"

text \<open>Of \<^verbatim>\<open>DesignVariant\<close> and \<^verbatim>\<open>InstallConfig\<close> only the fields the function reads.\<close>

record Dimensions =
  widthIn :: real
  heightIn :: real

record DesignVariant =
  lighting :: string
  roundedBacker :: bool

record InstallConfig =
  heightFeet :: real
  liftType :: string
  electricalWork :: bool
  permit :: bool
  hardAccess :: bool

datatype LineItem =
    LettersBase nat real real
  | HeightAdder real real
  | FrontLitUpgrade real
  | BackLitUpgrade real
  | RacewayBacker real
  | MinimumPricingApplied real
  | SizeSqft real real real
  | DepthAdder real real
  | InternalIllumination real
  | Lamination real
  | RushOrder real
  | BaseTripFee real
  | Labor real real real
  | LiftItem string real
  | ElectricalHookup real
  | PermitAllowance real
  | HardAccessParking real
  | Contingency real

record Breakdown =
  fabBase :: real
  fabAdders :: "LineItem list"
  installLabor :: real
  installLift :: real
  installAdders :: "LineItem list"

record QuoteResult =
  fabricationCost :: real
  installationCost :: real
  subtotal :: real
  gst :: real
  total :: real
  breakdown :: Breakdown

datatype error = TypeError

subsection \<open>The pricing table\<close>

text \<open>
  The shape of \<^verbatim>\<open>PRICING\<close> as \<^verbatim>\<open>calculateQuote\<close> reads it. Field names that occur in
  several rule sets carry the rule set's initials (\<^verbatim>\<open>MIN_PRICE\<close>, \<^verbatim>\<open>PER_SQFT\<close>), and the
  two members of \<^verbatim>\<open>LIGHTING_ADDER\<close> and of \<^verbatim>\<open>LIFT\<close> carry a prefix.
\<close>

record LightingAdder =
  LA_FRONT_LIT :: real
  LA_BACK_LIT :: real

record ChannelLettersRules =
  BASE_PER_LETTER :: real
  PER_INCH_HEIGHT :: real
  LIGHTING_ADDER :: LightingAdder
  BACKER_ADDER :: real
  CL_MIN_PRICE :: real

record LightboxRules =
  LB_PER_SQFT :: real
  DEPTH_BASE :: real
  DEPTH_ADDER_PER_INCH :: real
  LIGHTING_ADDER_FRONT_LIT :: real
  LB_MIN_PRICE :: real

record WindowVinylRules =
  WV_PER_SQFT :: real
  LAMINATION_PERCENT :: real
  WV_MIN_PRICE :: real

record Fabrication =
  FAB_CHANNEL_LETTERS :: ChannelLettersRules
  FAB_LIGHTBOX :: LightboxRules
  FAB_WINDOW_VINYL :: WindowVinylRules
  RUSH_ORDER_PERCENT :: real

record HeightTier =
  maxFt :: real
  hours :: real

record Lift =
  LIFT_SCISSOR :: real
  LIFT_BOOM :: real

record Installation =
  BASE_TRIP :: real
  HEIGHT_TIERS :: "HeightTier list"
  LABOR_RATE :: real
  LIFT :: Lift
  ELECTRICAL :: real
  PERMIT :: real
  HARD_ACCESS :: real
  CONTINGENCY_PERCENT :: real

record Tax =
  GST :: real

record Pricing =
  FABRICATION :: Fabrication
  INSTALLATION :: Installation
  TAX :: Tax

subsection \<open>Fabrication\<close>

text \<open>
  The class \<^verbatim>\<open>\s\<close> of an ECMAScript regular expression without the \<^verbatim>\<open>u\<close> flag: the
  white space and line terminator code units.
\<close>

definition isWhitespace :: "16 word \<Rightarrow> bool" where
  "isWhitespace c \<longleftrightarrow>
     c = 0x0009 \<or> c = 0x000A \<or> c = 0x000B \<or> c = 0x000C \<or> c = 0x000D \<or> c = 0x0020 \<or>
     c = 0x00A0 \<or> c = 0x1680 \<or> (0x2000 \<le> c \<and> c \<le> 0x200A) \<or> c = 0x2028 \<or>
     c = 0x2029 \<or> c = 0x202F \<or> c = 0x205F \<or> c = 0x3000 \<or> c = 0xFEFF"

text \<open>\<^verbatim>\<open>text.replace(/\s/g, '')\<close>\<close>

definition replaceWhitespace :: "jsstring \<Rightarrow> jsstring" where
  "replaceWhitespace text = filter (\<lambda>c. \<not> isWhitespace c) text"

text \<open>
  The Channel Letters branch up to the floor (lines 19 to 48): the raw cost and the line
  items pushed so far.
\<close>

definition channelLettersRaw ::
  "ChannelLettersRules \<Rightarrow> Dimensions \<Rightarrow> jsstring \<Rightarrow> DesignVariant \<Rightarrow> nat \<times> real \<times> LineItem list"
where
  "channelLettersRaw rules dimensions text variant =
    (let letterCount = length (replaceWhitespace text);
         fabAdders = [];
         rawCost = 0;
         baseLettersCost = real letterCount * BASE_PER_LETTER rules;
         fabAdders = fabAdders @ [LettersBase letterCount (BASE_PER_LETTER rules) baseLettersCost];
         rawCost = rawCost + baseLettersCost;
         heightCost = real letterCount * heightIn dimensions * PER_INCH_HEIGHT rules;
         fabAdders = fabAdders @ [HeightAdder (heightIn dimensions) heightCost];
         rawCost = rawCost + heightCost;
         (rawCost, fabAdders) =
           (if lighting variant = FRONT_LIT then
              (let litCost = real letterCount * LA_FRONT_LIT (LIGHTING_ADDER rules)
               in (rawCost + litCost, fabAdders @ [FrontLitUpgrade litCost]))
            else if lighting variant = BACK_LIT then
              (let litCost = real letterCount * LA_BACK_LIT (LIGHTING_ADDER rules)
               in (rawCost + litCost, fabAdders @ [BackLitUpgrade litCost]))
            else (rawCost, fabAdders));
         (rawCost, fabAdders) =
           (if roundedBacker variant then
              (rawCost + BACKER_ADDER rules, fabAdders @ [RacewayBacker (BACKER_ADDER rules)])
            else (rawCost, fabAdders))
     in (letterCount, rawCost, fabAdders))"

text \<open>The floor of lines 50 to 53 and 76 to 79, the same statements in both branches.\<close>

definition applyMinimum :: "real \<Rightarrow> real \<times> LineItem list \<Rightarrow> real \<times> LineItem list" where
  "applyMinimum MIN_PRICE rf =
    (let (rawCost, fabAdders) = rf;
         fabCost = max rawCost MIN_PRICE
     in (fabCost,
         if fabCost = MIN_PRICE \<and> rawCost < MIN_PRICE
         then fabAdders @ [MinimumPricingApplied MIN_PRICE] else fabAdders))"

text \<open>The Lightbox branch up to the floor (lines 56 to 74).\<close>

definition lightboxRaw ::
  "LightboxRules \<Rightarrow> Dimensions \<Rightarrow> DesignVariant \<Rightarrow> real \<Rightarrow> real \<times> LineItem list"
where
  "lightboxRaw rules dimensions variant lightboxDepth =
    (let sqft = (widthIn dimensions * heightIn dimensions) / 144;
         rawCost = sqft * LB_PER_SQFT rules;
         fabAdders = [SizeSqft sqft (LB_PER_SQFT rules) rawCost];
         (rawCost, fabAdders) =
           (if lightboxDepth > DEPTH_BASE rules then
              (let depthExcess = lightboxDepth - DEPTH_BASE rules;
                   depthCost = depthExcess * DEPTH_ADDER_PER_INCH rules
               in (rawCost + depthCost, fabAdders @ [DepthAdder depthExcess depthCost]))
            else (rawCost, fabAdders));
         (rawCost, fabAdders) =
           (if lighting variant = FRONT_LIT then
              (rawCost + LIGHTING_ADDER_FRONT_LIT rules,
               fabAdders @ [InternalIllumination (LIGHTING_ADDER_FRONT_LIT rules)])
            else (rawCost, fabAdders))
     in (rawCost, fabAdders))"

text \<open>The Window Vinyl branch up to the floor (lines 82 to 92).\<close>

definition windowVinylRaw ::
  "WindowVinylRules \<Rightarrow> Dimensions \<Rightarrow> bool \<Rightarrow> real \<times> LineItem list"
where
  "windowVinylRaw rules dimensions hasLamination =
    (let sqft = (widthIn dimensions * heightIn dimensions) / 144;
         rawCost = sqft * WV_PER_SQFT rules;
         fabAdders = [SizeSqft sqft (WV_PER_SQFT rules) rawCost];
         (rawCost, fabAdders) =
           (if hasLamination then
              (let lamCost = rawCost * LAMINATION_PERCENT rules
               in (rawCost + lamCost, fabAdders @ [Lamination lamCost]))
            else (rawCost, fabAdders))
     in (rawCost, fabAdders))"

text \<open>
  The dispatch on the sign type (lines 14 to 95). A sign type that is none of the three
  leaves \<^verbatim>\<open>fabCost = 0\<close> and \<^verbatim>\<open>fabAdders = []\<close>. Window Vinyl takes the maximum without
  the line item.
\<close>

definition fabrication ::
  "Pricing \<Rightarrow> string \<Rightarrow> Dimensions \<Rightarrow> jsstring \<Rightarrow> DesignVariant \<Rightarrow> bool \<Rightarrow> real
     \<Rightarrow> real \<times> LineItem list"
where
  "fabrication P signType dimensions text variant hasLamination lightboxDepth =
    (if signType = CHANNEL_LETTERS then
       (let rules = FAB_CHANNEL_LETTERS (FABRICATION P);
            (letterCount, rawCost, fabAdders) = channelLettersRaw rules dimensions text variant
        in applyMinimum (CL_MIN_PRICE rules) (rawCost, fabAdders))
     else if signType = LIGHTBOX then
       (let rules = FAB_LIGHTBOX (FABRICATION P)
        in applyMinimum (LB_MIN_PRICE rules) (lightboxRaw rules dimensions variant lightboxDepth))
     else if signType = WINDOW_VINYL then
       (let rules = FAB_WINDOW_VINYL (FABRICATION P);
            (rawCost, fabAdders) = windowVinylRaw rules dimensions hasLamination
        in (max rawCost (WV_MIN_PRICE rules), fabAdders))
     else (0, []))"

text \<open>The rush order (lines 98 to 102).\<close>

definition applyRush :: "Pricing \<Rightarrow> bool \<Rightarrow> real \<times> LineItem list \<Rightarrow> real \<times> LineItem list" where
  "applyRush P isRush ff =
    (let (fabCost, fabAdders) = ff
     in if isRush then
          (let rushFee = fabCost * RUSH_ORDER_PERCENT (FABRICATION P)
           in (fabCost + rushFee, fabAdders @ [RushOrder rushFee]))
        else (fabCost, fabAdders))"

subsection \<open>Installation\<close>

text \<open>
  Line 112: \<^verbatim>\<open>HEIGHT_TIERS.find(t => heightFeet <= t.maxFt) || HEIGHT_TIERS[length - 1]\<close>.
  A tier is an object, hence truthy, so the right operand is taken exactly when \<^verbatim>\<open>find\<close>
  returns \<^verbatim>\<open>undefined\<close>; on an empty table the right operand is \<^verbatim>\<open>undefined\<close> too.
\<close>

definition findTier :: "HeightTier list \<Rightarrow> real \<Rightarrow> HeightTier option" where
  "findTier tiers h =
    (case find (\<lambda>t. h \<le> maxFt t) tiers of
       Some t \<Rightarrow> Some t
     | None \<Rightarrow> (if tiers = [] then None else Some (last tiers)))"

record InstallResult =
  ir_installationCost :: real
  ir_laborCost :: real
  ir_liftCost :: real
  ir_installAdders :: "LineItem list"

text \<open>Lines 105 to 139. Reading \<^verbatim>\<open>tier.hours\<close> of \<^verbatim>\<open>undefined\<close> throws a \<^verbatim>\<open>TypeError\<close>.\<close>

definition installation :: "Pricing \<Rightarrow> InstallConfig \<Rightarrow> error + InstallResult" where
  "installation P installConfig =
    (let iRules = INSTALLATION P;
         installBase = BASE_TRIP iRules;
         installAdders = [BaseTripFee (BASE_TRIP iRules)]
     in case findTier (HEIGHT_TIERS iRules) (heightFeet installConfig) of
          None \<Rightarrow> Inl TypeError
        | Some tier \<Rightarrow>
           (let laborCost = hours tier * LABOR_RATE iRules;
                installAdders = installAdders @ [Labor (hours tier) (LABOR_RATE iRules) laborCost];
                liftCost = 0;
                liftCost = (if liftType installConfig = ''SCISSOR''
                            then LIFT_SCISSOR (LIFT iRules) else liftCost);
                liftCost = (if liftType installConfig = ''BOOM''
                            then LIFT_BOOM (LIFT iRules) else liftCost);
                installAdders = (if liftCost > 0
                                 then installAdders @ [LiftItem (liftType installConfig) liftCost]
                                 else installAdders);
                extras = 0;
                (extras, installAdders) =
                  (if electricalWork installConfig
                   then (extras + ELECTRICAL iRules,
                         installAdders @ [ElectricalHookup (ELECTRICAL iRules)])
                   else (extras, installAdders));
                (extras, installAdders) =
                  (if permit installConfig
                   then (extras + PERMIT iRules, installAdders @ [PermitAllowance (PERMIT iRules)])
                   else (extras, installAdders));
                (extras, installAdders) =
                  (if hardAccess installConfig
                   then (extras + HARD_ACCESS iRules,
                         installAdders @ [HardAccessParking (HARD_ACCESS iRules)])
                   else (extras, installAdders));
                preContingencyInstall = installBase + laborCost + liftCost + extras;
                contingency = preContingencyInstall * CONTINGENCY_PERCENT iRules;
                installAdders = installAdders @ [Contingency contingency];
                installationCost = preContingencyInstall + contingency
            in Inr \<lparr>ir_installationCost = installationCost, ir_laborCost = laborCost,
                    ir_liftCost = liftCost, ir_installAdders = installAdders\<rparr>))"

subsection \<open>The whole quote\<close>

text \<open>Lines 4 to 160, with the totals of lines 142 to 159.\<close>

definition calculateQuote ::
  "Pricing \<Rightarrow> string \<Rightarrow> Dimensions \<Rightarrow> jsstring \<Rightarrow> DesignVariant \<Rightarrow> InstallConfig \<Rightarrow> bool
     \<Rightarrow> bool \<Rightarrow> real \<Rightarrow> error + QuoteResult"
where
  "calculateQuote P signType dimensions text variant installConfig isRush hasLamination
      lightboxDepth =
    (let (fabCost, fabAdders) =
           applyRush P isRush
             (fabrication P signType dimensions text variant hasLamination lightboxDepth)
     in case installation P installConfig of
          Inl e \<Rightarrow> Inl e
        | Inr inst \<Rightarrow>
           (let installationCost = ir_installationCost inst;
                subtotal = fabCost + installationCost;
                gst = subtotal * GST (TAX P);
                total = subtotal + gst
            in Inr \<lparr>fabricationCost = fabCost,
                    installationCost = installationCost,
                    subtotal = subtotal,
                    gst = gst,
                    total = total,
                    breakdown = \<lparr>fabBase = fabCost,
                                 fabAdders = fabAdders,
                                 installLabor = ir_laborCost inst,
                                 installLift = ir_liftCost inst,
                                 installAdders = ir_installAdders inst\<rparr>\<rparr>))"

text \<open>
  The last two parameters are optional in the source (\<^verbatim>\<open>hasLamination = false\<close>,
  \<^verbatim>\<open>lightboxDepth = 4\<close>); a call that omits them is this one.
\<close>

definition calculateQuoteDefault ::
  "Pricing \<Rightarrow> string \<Rightarrow> Dimensions \<Rightarrow> jsstring \<Rightarrow> DesignVariant \<Rightarrow> InstallConfig \<Rightarrow> bool
     \<Rightarrow> error + QuoteResult"
where
  "calculateQuoteDefault P signType dimensions text variant installConfig isRush =
     calculateQuote P signType dimensions text variant installConfig isRush False 4"

subsection \<open>A pricing table and inputs for concrete evaluation\<close>

text \<open>
  The values of \<^verbatim>\<open>PRICING\<close> are not among the sources. The table below takes the four
  figures the source text mentions (lightbox lighting adder 160, rush 12%, lamination 25%,
  contingency 10%) and fills the rest with plausible amounts; it serves only as a concrete
  input.
\<close>

definition samplePricing :: Pricing where
  "samplePricing =
    \<lparr>FABRICATION =
       \<lparr>FAB_CHANNEL_LETTERS =
          \<lparr>BASE_PER_LETTER = 85, PER_INCH_HEIGHT = 4,
           LIGHTING_ADDER = \<lparr>LA_FRONT_LIT = 35, LA_BACK_LIT = 45\<rparr>,
           BACKER_ADDER = 250, CL_MIN_PRICE = 600\<rparr>,
        FAB_LIGHTBOX =
          \<lparr>LB_PER_SQFT = 65, DEPTH_BASE = 4, DEPTH_ADDER_PER_INCH = 15,
           LIGHTING_ADDER_FRONT_LIT = 160, LB_MIN_PRICE = 450\<rparr>,
        FAB_WINDOW_VINYL =
          \<lparr>WV_PER_SQFT = 12, LAMINATION_PERCENT = 25 / 100, WV_MIN_PRICE = 150\<rparr>,
        RUSH_ORDER_PERCENT = 12 / 100\<rparr>,
     INSTALLATION =
       \<lparr>BASE_TRIP = 150,
        HEIGHT_TIERS = [\<lparr>maxFt = 12, hours = 3\<rparr>, \<lparr>maxFt = 20, hours = 5\<rparr>,
                        \<lparr>maxFt = 30, hours = 8\<rparr>],
        LABOR_RATE = 95,
        LIFT = \<lparr>LIFT_SCISSOR = 350, LIFT_BOOM = 650\<rparr>,
        ELECTRICAL = 250, PERMIT = 300, HARD_ACCESS = 150,
        CONTINGENCY_PERCENT = 10 / 100\<rparr>,
     TAX = \<lparr>GST = 5 / 100\<rparr>\<rparr>"

text \<open>
  The text \<^verbatim>\<open>OPEN\<close>, and the letters \<^verbatim>\<open>A\<close> and \<^verbatim>\<open>B\<close> after a space, separated by a no-break
  space and followed by an ideographic space, as code units.
\<close>

definition textOPEN :: jsstring where
  "textOPEN = [0x4F, 0x50, 0x45, 0x4E]"

definition textSpaced :: jsstring where
  "textSpaced = [0x20, 0x41, 0xA0, 0x42, 0x3000]"

definition sampleInstall :: InstallConfig where
  "sampleInstall =
     \<lparr>heightFeet = 10, liftType = ''NONE'', electricalWork = True, permit = True,
      hardAccess = False\<rparr>"

definition dimsOPEN :: Dimensions where
  "dimsOPEN = \<lparr>widthIn = 0, heightIn = 18\<rparr>"

definition frontLit :: DesignVariant where
  "frontLit = \<lparr>lighting = FRONT_LIT, roundedBacker = False\<rparr>"

definition nonLit :: DesignVariant where
  "nonLit = \<lparr>lighting = NON_LIT, roundedBacker = False\<rparr>"

definition sampleInstallResult :: Breakdown where
  "sampleInstallResult =
     \<lparr>fabBase = 0, fabAdders = [], installLabor = 285, installLift = 0,
      installAdders = [BaseTripFee 150, Labor 3 95 285, ElectricalHookup 250,
                       PermitAllowance 300, Contingency (197 / 2)]\<rparr>"

text \<open>
  \<^verbatim>\<open>OPEN\<close>, 18 inches, front lit, no backer, installed at 10 feet without a lift, with
  electrical work and a permit: without and with the rush order.
\<close>

definition quoteOPEN :: QuoteResult where
  "quoteOPEN =
     \<lparr>fabricationCost = 768, installationCost = 2167 / 2, subtotal = 3703 / 2,
      gst = 3703 / 40, total = 77763 / 40,
      breakdown = sampleInstallResult
        \<lparr>fabBase := 768,
         fabAdders := [LettersBase 4 85 340, HeightAdder 18 288, FrontLitUpgrade 140]\<rparr>\<rparr>"

definition quoteOPENrush :: QuoteResult where
  "quoteOPENrush =
     \<lparr>fabricationCost = 21504 / 25, installationCost = 2167 / 2, subtotal = 97183 / 50,
      gst = 97183 / 1000, total = 2040843 / 1000,
      breakdown = sampleInstallResult
        \<lparr>fabBase := 21504 / 25,
         fabAdders := [LettersBase 4 85 340, HeightAdder 18 288, FrontLitUpgrade 140,
                       RushOrder (2304 / 25)]\<rparr>\<rparr>"

subsection \<open>The specification's reading of the Channel Letters cost\<close>

text \<open>
  The definitions of this subsection follow the specification's words, not the code; the
  theorems compare them with the code. The number of non-whitespace characters:
\<close>

fun countNonWhitespace :: "jsstring \<Rightarrow> nat" where
  "countNonWhitespace [] = 0"
| "countNonWhitespace (c # cs) = (if isWhitespace c then 0 else 1) + countNonWhitespace cs"

text \<open>The per-letter lighting rate, 0 when the variant is not lit.\<close>

definition lightingRate :: "ChannelLettersRules \<Rightarrow> string \<Rightarrow> real" where
  "lightingRate rules l =
     (if l = FRONT_LIT then LA_FRONT_LIT (LIGHTING_ADDER rules)
      else if l = BACK_LIT then LA_BACK_LIT (LIGHTING_ADDER rules)
      else 0)"

text \<open>The raw cost as the specification writes it.\<close>

definition specChannelLettersRaw ::
  "ChannelLettersRules \<Rightarrow> Dimensions \<Rightarrow> jsstring \<Rightarrow> DesignVariant \<Rightarrow> real"
where
  "specChannelLettersRaw rules dimensions text variant =
     real (countNonWhitespace text) * BASE_PER_LETTER rules
     + real (countNonWhitespace text) * heightIn dimensions * PER_INCH_HEIGHT rules
     + real (countNonWhitespace text) * lightingRate rules (lighting variant)
     + (if roundedBacker variant then BACKER_ADDER rules else 0)"

text \<open>The line item \<^verbatim>\<open>Minimum Pricing Applied\<close>.\<close>

fun isMinimumItem :: "LineItem \<Rightarrow> bool" where
  "isMinimumItem (MinimumPricingApplied m) = True"
| "isMinimumItem _ = False"

subsection \<open>Predicates and sample results used by the claims\<close>

text \<open>The line item of the lift.\<close>

fun isLiftItem :: "LineItem \<Rightarrow> bool" where
  "isLiftItem (LiftItem l c) = True"
| "isLiftItem _ = False"

text \<open>The line item of the lamination.\<close>

fun isLaminationItem :: "LineItem \<Rightarrow> bool" where
  "isLaminationItem (Lamination a) = True"
| "isLaminationItem _ = False"

text \<open>A tier table in strictly ascending order of \<^verbatim>\<open>maxFt\<close>.\<close>

definition ascending :: "HeightTier list \<Rightarrow> bool" where
  "ascending tiers = sorted_wrt (\<lambda>a b. maxFt a < maxFt b) tiers"

text \<open>
  A lightbox with a negative width and a negative depth, installed at a negative height.
\<close>

definition dimsNegative :: Dimensions where
  "dimsNegative = \<lparr>widthIn = - 48, heightIn = 24\<rparr>"

definition installNegative :: InstallConfig where
  "installNegative = sampleInstall\<lparr>heightFeet := - 5\<rparr>"

definition quoteNegative :: QuoteResult where
  "quoteNegative =
     \<lparr>fabricationCost = 450, installationCost = 2167 / 2, subtotal = 3067 / 2,
      gst = 3067 / 40, total = 64407 / 40,
      breakdown = sampleInstallResult
        \<lparr>fabBase := 450,
         fabAdders := [SizeSqft (- 8) 65 (- 520), InternalIllumination 160,
                       MinimumPricingApplied 450]\<rparr>\<rparr>"

text \<open>A sign type and a lift type outside the enumerations.\<close>

definition installCrane :: InstallConfig where
  "installCrane = sampleInstall\<lparr>liftType := ''CRANE''\<rparr>"

definition quoteNeon :: QuoteResult where
  "quoteNeon =
     \<lparr>fabricationCost = 0, installationCost = 2167 / 2, subtotal = 2167 / 2,
      gst = 2167 / 40, total = 45507 / 40,
      breakdown = sampleInstallResult\<rparr>"

text \<open>A lightbox of one square foot, front lit.\<close>

definition dimsSmall :: Dimensions where
  "dimsSmall = \<lparr>widthIn = 12, heightIn = 12\<rparr>"

definition quoteSmallBox :: QuoteResult where
  "quoteSmallBox =
     \<lparr>fabricationCost = 450, installationCost = 2167 / 2, subtotal = 3067 / 2,
      gst = 3067 / 40, total = 64407 / 40,
      breakdown = sampleInstallResult
        \<lparr>fabBase := 450,
         fabAdders := [SizeSqft 1 65 65, InternalIllumination 160,
                       MinimumPricingApplied 450]\<rparr>\<rparr>"

text \<open>Window vinyl of 72 by 48 inches with lamination and rush order.\<close>

definition dimsVinyl :: Dimensions where
  "dimsVinyl = \<lparr>widthIn = 72, heightIn = 48\<rparr>"

definition quoteVinyl :: QuoteResult where
  "quoteVinyl =
     \<lparr>fabricationCost = 2016 / 5, installationCost = 2167 / 2, subtotal = 14867 / 10,
      gst = 14867 / 200, total = 312207 / 200,
      breakdown = sampleInstallResult
        \<lparr>fabBase := 2016 / 5,
         fabAdders := [SizeSqft 24 12 288, Lamination 72, RushOrder (216 / 5)]\<rparr>\<rparr>"

text \<open>An installation at exactly 20 feet and one at 45 feet, above every tier.\<close>

definition installTwenty :: InstallConfig where
  "installTwenty = sampleInstall\<lparr>heightFeet := 20\<rparr>"

definition installHigh :: InstallConfig where
  "installHigh = sampleInstall\<lparr>heightFeet := 45\<rparr>"

text \<open>The fabrication cost of a result, or the error.\<close>

definition fabricationCostOf :: "error + QuoteResult \<Rightarrow> error + real" where
  "fabricationCostOf q = map_sum id fabricationCost q"

text \<open>A lightbox of 48 by 36 inches, whose raw cost is above the minimum price.\<close>

definition dimsLarge :: Dimensions where
  "dimsLarge = \<lparr>widthIn = 48, heightIn = 36\<rparr>"

section \<open>Evaluation and structure of the model\<close>

lemmas model_defs =
  calculateQuote_def installation_def findTier_def fabrication_def applyRush_def
  applyMinimum_def channelLettersRaw_def lightboxRaw_def windowVinylRaw_def
  replaceWhitespace_def isWhitespace_def CHANNEL_LETTERS_def LIGHTBOX_def WINDOW_VINYL_def
  NON_LIT_def FRONT_LIT_def BACK_LIT_def

lemmas sample_defs =
  samplePricing_def sampleInstall_def textOPEN_def textSpaced_def dimsOPEN_def frontLit_def nonLit_def
  sampleInstallResult_def

lemma eval_quoteOPEN:
  "calculateQuote samplePricing CHANNEL_LETTERS dimsOPEN textOPEN frontLit sampleInstall
     False False 4 = Inr quoteOPEN"
  by (simp add: model_defs sample_defs quoteOPEN_def Let_def)

lemma eval_quoteOPENrush:
  "calculateQuote samplePricing CHANNEL_LETTERS dimsOPEN textOPEN frontLit sampleInstall
     True False 4 = Inr quoteOPENrush"
  by (simp add: model_defs sample_defs quoteOPENrush_def Let_def)

lemma sign_types_distinct:
  "CHANNEL_LETTERS \<noteq> LIGHTBOX" "CHANNEL_LETTERS \<noteq> WINDOW_VINYL" "LIGHTBOX \<noteq> WINDOW_VINYL"
  "LIGHTBOX \<noteq> CHANNEL_LETTERS" "WINDOW_VINYL \<noteq> CHANNEL_LETTERS" "WINDOW_VINYL \<noteq> LIGHTBOX"
  by (simp_all add: CHANNEL_LETTERS_def LIGHTBOX_def WINDOW_VINYL_def)

lemma lighting_types_distinct:
  "NON_LIT \<noteq> FRONT_LIT" "NON_LIT \<noteq> BACK_LIT" "FRONT_LIT \<noteq> BACK_LIT"
  "FRONT_LIT \<noteq> NON_LIT" "BACK_LIT \<noteq> NON_LIT" "BACK_LIT \<noteq> FRONT_LIT"
  by (simp_all add: NON_LIT_def FRONT_LIT_def BACK_LIT_def)

subsection \<open>When the function returns\<close>

lemma installation_total:
  "HEIGHT_TIERS (INSTALLATION P) \<noteq> [] \<Longrightarrow> \<exists>inst. installation P installConfig = Inr inst"
  by (simp add: installation_def findTier_def Let_def split: prod.splits option.splits)

lemma installation_error_iff:
  "installation P installConfig = Inl e \<longleftrightarrow> HEIGHT_TIERS (INSTALLATION P) = []"
  by (cases e)
     (auto simp add: installation_def findTier_def Let_def split: prod.splits option.splits)

lemma calculateQuote_error_iff:
  "calculateQuote P signType dimensions text variant installConfig isRush hasLamination
     lightboxDepth = Inl e \<longleftrightarrow> HEIGHT_TIERS (INSTALLATION P) = []"
  using installation_error_iff [of P installConfig e]
  by (cases e) (auto simp add: calculateQuote_def Let_def split: prod.splits sum.splits)

lemma calculateQuote_total:
  "HEIGHT_TIERS (INSTALLATION P) \<noteq> [] \<Longrightarrow>
   \<exists>r. calculateQuote P signType dimensions text variant installConfig isRush hasLamination
          lightboxDepth = Inr r"
  using installation_total [of P installConfig]
  by (auto simp add: calculateQuote_def Let_def split: prod.splits sum.splits)

subsection \<open>The fields of a returned quote\<close>

lemma calculateQuote_Inr:
  assumes "calculateQuote P signType dimensions text variant installConfig isRush hasLamination
             lightboxDepth = Inr r"
  shows "fabricationCost r =
           fst (applyRush P isRush
                 (fabrication P signType dimensions text variant hasLamination lightboxDepth))"
    and "fabBase (breakdown r) =
           fst (applyRush P isRush
                 (fabrication P signType dimensions text variant hasLamination lightboxDepth))"
    and "fabAdders (breakdown r) =
           snd (applyRush P isRush
                 (fabrication P signType dimensions text variant hasLamination lightboxDepth))"
    and "subtotal r = fabricationCost r + installationCost r"
    and "gst r = subtotal r * GST (TAX P)"
    and "total r = subtotal r + gst r"
    and "\<exists>inst. installation P installConfig = Inr inst \<and>
           installationCost r = ir_installationCost inst \<and>
           installLabor (breakdown r) = ir_laborCost inst \<and>
           installLift (breakdown r) = ir_liftCost inst \<and>
           installAdders (breakdown r) = ir_installAdders inst"
  using assms
  by (auto simp add: calculateQuote_def Let_def split: prod.splits sum.splits)

lemma applyRush_True:
  "applyRush P True ff =
     (fst ff + fst ff * RUSH_ORDER_PERCENT (FABRICATION P),
      snd ff @ [RushOrder (fst ff * RUSH_ORDER_PERCENT (FABRICATION P))])"
  by (simp add: applyRush_def Let_def split: prod.splits)

lemma applyRush_False: "applyRush P False ff = ff"
  by (simp add: applyRush_def split: prod.splits)

lemma fst_applyMinimum: "fst (applyMinimum m rf) = max (fst rf) m"
  by (simp add: applyMinimum_def Let_def split: prod.splits)

lemma snd_applyMinimum:
  "snd (applyMinimum m rf) = (if fst rf < m then snd rf @ [MinimumPricingApplied m] else snd rf)"
  by (auto simp add: applyMinimum_def Let_def split: prod.splits)

lemma fabrication_channel_letters:
  "fabrication P CHANNEL_LETTERS dimensions text variant hasLamination lightboxDepth =
     applyMinimum (CL_MIN_PRICE (FAB_CHANNEL_LETTERS (FABRICATION P)))
       (snd (channelLettersRaw (FAB_CHANNEL_LETTERS (FABRICATION P)) dimensions text variant))"
  by (simp add: fabrication_def Let_def split: prod.splits)

lemma fabrication_lightbox:
  "fabrication P LIGHTBOX dimensions text variant hasLamination lightboxDepth =
     applyMinimum (LB_MIN_PRICE (FAB_LIGHTBOX (FABRICATION P)))
       (lightboxRaw (FAB_LIGHTBOX (FABRICATION P)) dimensions variant lightboxDepth)"
  by (simp add: fabrication_def Let_def sign_types_distinct)

lemma fabrication_window_vinyl:
  "fabrication P WINDOW_VINYL dimensions text variant hasLamination lightboxDepth =
     (max (fst (windowVinylRaw (FAB_WINDOW_VINYL (FABRICATION P)) dimensions hasLamination))
          (WV_MIN_PRICE (FAB_WINDOW_VINYL (FABRICATION P))),
      snd (windowVinylRaw (FAB_WINDOW_VINYL (FABRICATION P)) dimensions hasLamination))"
  by (simp add: fabrication_def Let_def sign_types_distinct split: prod.splits)

lemma fabrication_other:
  "signType \<noteq> CHANNEL_LETTERS \<Longrightarrow> signType \<noteq> LIGHTBOX \<Longrightarrow> signType \<noteq> WINDOW_VINYL \<Longrightarrow>
   fabrication P signType dimensions text variant hasLamination lightboxDepth = (0, [])"
  by (simp add: fabrication_def)

subsection \<open>The Channel Letters branch and the line items\<close>

lemma length_replaceWhitespace: "length (replaceWhitespace text) = countNonWhitespace text"
  by (induction "text") (simp_all add: replaceWhitespace_def)

lemma countNonWhitespace_zero_iff: "countNonWhitespace text = 0 \<longleftrightarrow> list_all isWhitespace text"
  by (induction "text") simp_all

lemma channelLettersRaw_count:
  "fst (channelLettersRaw rules dimensions text variant) = countNonWhitespace text"
  by (simp add: channelLettersRaw_def Let_def length_replaceWhitespace split: prod.splits)

lemma channelLettersRaw_cost:
  "fst (snd (channelLettersRaw rules dimensions text variant)) =
     specChannelLettersRaw rules dimensions text variant"
  by (simp add: channelLettersRaw_def specChannelLettersRaw_def lightingRate_def Let_def
        length_replaceWhitespace lighting_types_distinct)

lemma channelLettersRaw_items:
  "snd (snd (channelLettersRaw rules dimensions text variant)) =
     [LettersBase (countNonWhitespace text) (BASE_PER_LETTER rules)
        (real (countNonWhitespace text) * BASE_PER_LETTER rules),
      HeightAdder (heightIn dimensions)
        (real (countNonWhitespace text) * heightIn dimensions * PER_INCH_HEIGHT rules)]
     @ (if lighting variant = FRONT_LIT
        then [FrontLitUpgrade (real (countNonWhitespace text) * LA_FRONT_LIT (LIGHTING_ADDER rules))]
        else if lighting variant = BACK_LIT
        then [BackLitUpgrade (real (countNonWhitespace text) * LA_BACK_LIT (LIGHTING_ADDER rules))]
        else [])
     @ (if roundedBacker variant then [RacewayBacker (BACKER_ADDER rules)] else [])"
  by (simp add: channelLettersRaw_def Let_def length_replaceWhitespace)

lemma channelLettersRaw_no_minimum:
  "\<not> list_ex isMinimumItem (snd (snd (channelLettersRaw rules dimensions text variant)))"
  by (simp add: channelLettersRaw_items)

lemma lightboxRaw_no_minimum:
  "\<not> list_ex isMinimumItem (snd (lightboxRaw rules dimensions variant lightboxDepth))"
  by (simp add: lightboxRaw_def Let_def)

lemma windowVinylRaw_no_minimum:
  "\<not> list_ex isMinimumItem (snd (windowVinylRaw rules dimensions hasLamination))"
  by (simp add: windowVinylRaw_def Let_def)

lemma snd_applyRush:
  "snd (applyRush P isRush ff) =
     snd ff @ (if isRush then [RushOrder (fst ff * RUSH_ORDER_PERCENT (FABRICATION P))] else [])"
  by (cases isRush) (simp_all add: applyRush_True applyRush_False)

lemma fst_applyRush:
  "fst (applyRush P isRush ff) =
     (if isRush then fst ff + fst ff * RUSH_ORDER_PERCENT (FABRICATION P) else fst ff)"
  by (cases isRush) (simp_all add: applyRush_True applyRush_False)

subsection \<open>Further evaluations\<close>

lemma eval_quoteNegative:
  "calculateQuote samplePricing LIGHTBOX dimsNegative [] frontLit installNegative
     False False (- 3) = Inr quoteNegative"
  by (simp add: model_defs sample_defs dimsNegative_def installNegative_def quoteNegative_def
        Let_def)

lemma eval_quoteNeon:
  "calculateQuote samplePricing ''Neon'' dimsOPEN textOPEN frontLit installCrane
     False False 4 = Inr quoteNeon"
  by (simp add: model_defs sample_defs installCrane_def quoteNeon_def Let_def)

lemma eval_quoteSmallBox:
  "calculateQuote samplePricing LIGHTBOX dimsSmall [] frontLit sampleInstall
     False False 4 = Inr quoteSmallBox"
  by (simp add: model_defs sample_defs dimsSmall_def quoteSmallBox_def Let_def)

lemma eval_quoteVinyl:
  "calculateQuote samplePricing WINDOW_VINYL dimsVinyl [] nonLit sampleInstall
     True True 4 = Inr quoteVinyl"
  by (simp add: model_defs sample_defs dimsVinyl_def quoteVinyl_def Let_def)

subsection \<open>The tier lookup and the installation\<close>

lemma findTier_nonempty: "tiers \<noteq> [] \<Longrightarrow> \<exists>tier. findTier tiers h = Some tier"
  by (simp add: findTier_def split: option.splits)

lemma findTier_first:
  assumes "findTier tiers h = Some tier" and "\<exists>t\<in>set tiers. h \<le> maxFt t"
  shows "\<exists>i<length tiers. tier = tiers ! i \<and> h \<le> maxFt (tiers ! i) \<and>
           (\<forall>j<i. maxFt (tiers ! j) < h)"
proof -
  from assms(2) have "find (\<lambda>t. h \<le> maxFt t) tiers \<noteq> None"
    by (auto simp add: find_None_iff)
  with assms(1) have "find (\<lambda>t. h \<le> maxFt t) tiers = Some tier"
    by (auto simp add: findTier_def split: option.splits)
  then obtain i where "i < length tiers" "h \<le> maxFt (tiers ! i)" "tier = tiers ! i"
    "\<forall>j<i. \<not> h \<le> maxFt (tiers ! j)"
    unfolding find_Some_iff by blast
  then show ?thesis by (auto simp add: not_le)
qed

lemma findTier_fallback:
  assumes "findTier tiers h = Some tier" and "\<forall>t\<in>set tiers. maxFt t < h"
  shows "tier = last tiers"
proof -
  from assms(2) have "find (\<lambda>t. h \<le> maxFt t) tiers = None"
    by (auto simp add: find_None_iff)
  with assms(1) show ?thesis
    by (simp add: findTier_def split: if_splits)
qed

lemma findTier_boundary:
  assumes "findTier tiers h = Some tier" and "ascending tiers"
    and "k < length tiers" and "h = maxFt (tiers ! k)"
  shows "tier = tiers ! k"
proof -
  have "\<exists>t\<in>set tiers. h \<le> maxFt t"
    using assms(3,4) by (auto intro: bexI [of _ "tiers ! k"])
  from findTier_first [OF assms(1) this]
  obtain i where i: "i < length tiers" "tier = tiers ! i" "h \<le> maxFt (tiers ! i)"
    "\<forall>j<i. maxFt (tiers ! j) < h" by blast
  have "\<not> k < i" using i(4) assms(4) by auto
  moreover have "\<not> i < k"
  proof
    assume "i < k"
    with assms(2,3) have "maxFt (tiers ! i) < maxFt (tiers ! k)"
      by (simp add: ascending_def sorted_wrt_iff_nth_less)
    with i(3) assms(4) show False by simp
  qed
  ultimately have "i = k" by simp
  with i(2) show ?thesis by simp
qed

lemma windowVinylRaw_laminated:
  "windowVinylRaw rules dimensions True =
     (widthIn dimensions * heightIn dimensions / 144 * WV_PER_SQFT rules
      + widthIn dimensions * heightIn dimensions / 144 * WV_PER_SQFT rules
        * LAMINATION_PERCENT rules,
      [SizeSqft (widthIn dimensions * heightIn dimensions / 144) (WV_PER_SQFT rules)
         (widthIn dimensions * heightIn dimensions / 144 * WV_PER_SQFT rules),
       Lamination (widthIn dimensions * heightIn dimensions / 144 * WV_PER_SQFT rules
                   * LAMINATION_PERCENT rules)])"
  by (simp add: windowVinylRaw_def Let_def)
lemma installation_Inr:
  assumes "installation P installConfig = Inr inst"
  shows "\<exists>tier. findTier (HEIGHT_TIERS (INSTALLATION P)) (heightFeet installConfig) = Some tier \<and>
           ir_laborCost inst = hours tier * LABOR_RATE (INSTALLATION P) \<and>
           take 2 (ir_installAdders inst) =
             [BaseTripFee (BASE_TRIP (INSTALLATION P)),
              Labor (hours tier) (LABOR_RATE (INSTALLATION P))
                (hours tier * LABOR_RATE (INSTALLATION P))]"
    and "ir_liftCost inst =
           (if liftType installConfig = ''BOOM'' then LIFT_BOOM (LIFT (INSTALLATION P))
            else if liftType installConfig = ''SCISSOR'' then LIFT_SCISSOR (LIFT (INSTALLATION P))
            else 0)"
    and "list_ex isLiftItem (ir_installAdders inst) \<longleftrightarrow> 0 < ir_liftCost inst"
  using assms
  by (auto simp add: installation_def Let_def split: option.splits if_splits)

lemma sample_tiers:
  "HEIGHT_TIERS (INSTALLATION samplePricing) =
     [\<lparr>maxFt = 12, hours = 3\<rparr>, \<lparr>maxFt = 20, hours = 5\<rparr>, \<lparr>maxFt = 30, hours = 8\<rparr>]"
  by (simp add: samplePricing_def)

lemma quote_labor:
  assumes "calculateQuote P signType dimensions text variant installConfig isRush hasLamination
             lightboxDepth = Inr r"
    and "findTier (HEIGHT_TIERS (INSTALLATION P)) (heightFeet installConfig) = Some tier"
  shows "installLabor (breakdown r) = hours tier * LABOR_RATE (INSTALLATION P)"
    and "take 2 (installAdders (breakdown r)) =
           [BaseTripFee (BASE_TRIP (INSTALLATION P)),
            Labor (hours tier) (LABOR_RATE (INSTALLATION P))
              (hours tier * LABOR_RATE (INSTALLATION P))]"
proof -
  from calculateQuote_Inr(7) [OF assms(1)] obtain inst where
    inst: "installation P installConfig = Inr inst"
      "installLabor (breakdown r) = ir_laborCost inst"
      "installAdders (breakdown r) = ir_installAdders inst"
    by blast
  from installation_Inr(1) [OF inst(1)] assms(2) inst(2,3)
  show "installLabor (breakdown r) = hours tier * LABOR_RATE (INSTALLATION P)"
    and "take 2 (installAdders (breakdown r)) =
           [BaseTripFee (BASE_TRIP (INSTALLATION P)),
            Labor (hours tier) (LABOR_RATE (INSTALLATION P))
              (hours tier * LABOR_RATE (INSTALLATION P))]"
    by auto
qed

lemma quote_lift:
  assumes "calculateQuote P signType dimensions text variant installConfig isRush hasLamination
             lightboxDepth = Inr r"
  shows "installLift (breakdown r) =
           (if liftType installConfig = ''BOOM'' then LIFT_BOOM (LIFT (INSTALLATION P))
            else if liftType installConfig = ''SCISSOR''
            then LIFT_SCISSOR (LIFT (INSTALLATION P))
            else 0)"
    and "list_ex isLiftItem (installAdders (breakdown r)) \<longleftrightarrow> 0 < installLift (breakdown r)"
proof -
  from calculateQuote_Inr(7) [OF assms(1)] obtain inst where
    inst: "installation P installConfig = Inr inst"
      "installLift (breakdown r) = ir_liftCost inst"
      "installAdders (breakdown r) = ir_installAdders inst"
    by blast
  show "installLift (breakdown r) =
           (if liftType installConfig = ''BOOM'' then LIFT_BOOM (LIFT (INSTALLATION P))
            else if liftType installConfig = ''SCISSOR''
            then LIFT_SCISSOR (LIFT (INSTALLATION P))
            else 0)"
    using installation_Inr(2) [OF inst(1)] inst(2) by simp
  show "list_ex isLiftItem (installAdders (breakdown r)) \<longleftrightarrow> 0 < installLift (breakdown r)"
    using installation_Inr(3) [OF inst(1)] inst(2,3) by simp
qed

subsection \<open>The lighting adders\<close>

lemma specChannelLettersRaw_lit:
  "specChannelLettersRaw rules dimensions text (variant\<lparr>lighting := lit\<rparr>) =
     specChannelLettersRaw rules dimensions text (variant\<lparr>lighting := NON_LIT\<rparr>)
     + real (countNonWhitespace text) * lightingRate rules lit"
  by (simp add: specChannelLettersRaw_def lightingRate_def lighting_types_distinct)

lemma lightboxRaw_front_lit:
  "other \<noteq> FRONT_LIT \<Longrightarrow>
   fst (lightboxRaw rules dimensions (variant\<lparr>lighting := FRONT_LIT\<rparr>) lightboxDepth) =
     fst (lightboxRaw rules dimensions (variant\<lparr>lighting := other\<rparr>) lightboxDepth)
     + LIGHTING_ADDER_FRONT_LIT rules"
  by (simp add: lightboxRaw_def Let_def)

lemma quote_channel_letters_cost:
  assumes "calculateQuote P CHANNEL_LETTERS dimensions text variant installConfig isRush
             hasLamination lightboxDepth = Inr r"
  shows "fabricationCost r =
           max (specChannelLettersRaw (FAB_CHANNEL_LETTERS (FABRICATION P)) dimensions text
                  variant)
               (CL_MIN_PRICE (FAB_CHANNEL_LETTERS (FABRICATION P)))
           * (if isRush then 1 + RUSH_ORDER_PERCENT (FABRICATION P) else 1)"
  by (simp add: calculateQuote_Inr(1) [OF assms] fst_applyRush fabrication_channel_letters
        fst_applyMinimum channelLettersRaw_cost algebra_simps)

lemma quote_lightbox_cost:
  assumes "calculateQuote P LIGHTBOX dimensions text variant installConfig isRush
             hasLamination lightboxDepth = Inr r"
  shows "fabricationCost r =
           max (fst (lightboxRaw (FAB_LIGHTBOX (FABRICATION P)) dimensions variant
                       lightboxDepth))
               (LB_MIN_PRICE (FAB_LIGHTBOX (FABRICATION P)))
           * (if isRush then 1 + RUSH_ORDER_PERCENT (FABRICATION P) else 1)"
  by (simp add: calculateQuote_Inr(1) [OF assms] fst_applyRush fabrication_lightbox
        fst_applyMinimum algebra_simps)

subsection \<open>The branches in closed form\<close>

lemma lightboxRaw_explicit:
  "lightboxRaw rules dimensions variant lightboxDepth =
     (widthIn dimensions * heightIn dimensions / 144 * LB_PER_SQFT rules
      + (if lightboxDepth > DEPTH_BASE rules
         then (lightboxDepth - DEPTH_BASE rules) * DEPTH_ADDER_PER_INCH rules else 0)
      + (if lighting variant = FRONT_LIT then LIGHTING_ADDER_FRONT_LIT rules else 0),
      SizeSqft (widthIn dimensions * heightIn dimensions / 144) (LB_PER_SQFT rules)
        (widthIn dimensions * heightIn dimensions / 144 * LB_PER_SQFT rules)
      # (if lightboxDepth > DEPTH_BASE rules
         then [DepthAdder (lightboxDepth - DEPTH_BASE rules)
                 ((lightboxDepth - DEPTH_BASE rules) * DEPTH_ADDER_PER_INCH rules)]
         else [])
      @ (if lighting variant = FRONT_LIT
         then [InternalIllumination (LIGHTING_ADDER_FRONT_LIT rules)] else []))"
  by (simp add: lightboxRaw_def Let_def)

lemma windowVinylRaw_explicit:
  "windowVinylRaw rules dimensions hasLamination =
     (widthIn dimensions * heightIn dimensions / 144 * WV_PER_SQFT rules
      + (if hasLamination
         then widthIn dimensions * heightIn dimensions / 144 * WV_PER_SQFT rules
              * LAMINATION_PERCENT rules
         else 0),
      SizeSqft (widthIn dimensions * heightIn dimensions / 144) (WV_PER_SQFT rules)
        (widthIn dimensions * heightIn dimensions / 144 * WV_PER_SQFT rules)
      # (if hasLamination
         then [Lamination (widthIn dimensions * heightIn dimensions / 144 * WV_PER_SQFT rules
                           * LAMINATION_PERCENT rules)]
         else []))"
  by (simp add: windowVinylRaw_def Let_def)

lemma quote_window_vinyl_cost:
  assumes "calculateQuote P WINDOW_VINYL dimensions text variant installConfig isRush
             hasLamination lightboxDepth = Inr r"
  shows "fabricationCost r =
           max (fst (windowVinylRaw (FAB_WINDOW_VINYL (FABRICATION P)) dimensions hasLamination))
               (WV_MIN_PRICE (FAB_WINDOW_VINYL (FABRICATION P)))
           * (if isRush then 1 + RUSH_ORDER_PERCENT (FABRICATION P) else 1)"
  by (simp add: calculateQuote_Inr(1) [OF assms] fst_applyRush fabrication_window_vinyl
        algebra_simps)

lemma quote_lightbox_first_item:
  assumes "calculateQuote P LIGHTBOX dimensions text variant installConfig isRush
             hasLamination lightboxDepth = Inr r"
  shows "hd (fabAdders (breakdown r)) =
           SizeSqft (widthIn dimensions * heightIn dimensions / 144)
             (LB_PER_SQFT (FAB_LIGHTBOX (FABRICATION P)))
             (widthIn dimensions * heightIn dimensions / 144
              * LB_PER_SQFT (FAB_LIGHTBOX (FABRICATION P)))"
  by (simp add: calculateQuote_Inr(3) [OF assms] snd_applyRush fabrication_lightbox
        snd_applyMinimum lightboxRaw_explicit)

lemma quote_window_vinyl_first_item:
  assumes "calculateQuote P WINDOW_VINYL dimensions text variant installConfig isRush
             hasLamination lightboxDepth = Inr r"
  shows "hd (fabAdders (breakdown r)) =
           SizeSqft (widthIn dimensions * heightIn dimensions / 144)
             (WV_PER_SQFT (FAB_WINDOW_VINYL (FABRICATION P)))
             (widthIn dimensions * heightIn dimensions / 144
              * WV_PER_SQFT (FAB_WINDOW_VINYL (FABRICATION P)))"
  by (simp add: calculateQuote_Inr(3) [OF assms] snd_applyRush fabrication_window_vinyl
        windowVinylRaw_explicit)

lemma findTier_head:
  "tiers \<noteq> [] \<Longrightarrow> h \<le> maxFt (hd tiers) \<Longrightarrow> findTier tiers h = Some (hd tiers)"
  by (cases tiers) (simp_all add: findTier_def)

section \<open>The claims\<close>

text \<open>
  C10. Whenever \<^verbatim>\<open>calculateQuote\<close> returns, \<^verbatim>\<open>breakdown.fabBase\<close> equals \<^verbatim>\<open>fabricationCost\<close>:
  both hold the fabrication cost after the rush order, for every sign type and with or
  without rush.
\<close>

theorem fabBase_is_fabricationCost:
  "calculateQuote P signType dimensions text variant installConfig isRush hasLamination
     lightboxDepth = Inr r \<Longrightarrow>
   fabBase (breakdown r) = fabricationCost r \<and>
   fabBase (breakdown r) =
     fst (applyRush P isRush
           (fabrication P signType dimensions text variant hasLamination lightboxDepth))"
  by (simp add: calculateQuote_Inr)

theorem fabBase_is_fabricationCost_witness:
  "calculateQuote samplePricing CHANNEL_LETTERS dimsOPEN textOPEN frontLit sampleInstall
     True False 4 = Inr quoteOPENrush \<and>
   fabBase (breakdown quoteOPENrush) = fabricationCost quoteOPENrush \<and>
   fabricationCost quoteOPENrush = 21504 / 25"
  using fabBase_is_fabricationCost [OF eval_quoteOPENrush] eval_quoteOPENrush
  by (simp add: quoteOPENrush_def)

text \<open>
  C2. Whenever \<^verbatim>\<open>calculateQuote\<close> returns, the subtotal is the sum of fabrication and
  installation cost, the tax is the subtotal times the tax rate, and the total is the
  subtotal plus the tax. Numbers are exact reals here, so the identities hold exactly.
\<close>

theorem totals_identity:
  "calculateQuote P signType dimensions text variant installConfig isRush hasLamination
     lightboxDepth = Inr r \<Longrightarrow>
   subtotal r = fabricationCost r + installationCost r \<and>
   gst r = subtotal r * GST (TAX P) \<and>
   total r = subtotal r + gst r"
  by (simp add: calculateQuote_Inr)

theorem totals_identity_witness:
  "calculateQuote samplePricing CHANNEL_LETTERS dimsOPEN textOPEN frontLit sampleInstall
     False False 4 = Inr quoteOPEN \<and>
   subtotal quoteOPEN = fabricationCost quoteOPEN + installationCost quoteOPEN \<and>
   gst quoteOPEN = subtotal quoteOPEN * GST (TAX samplePricing) \<and>
   total quoteOPEN = subtotal quoteOPEN + gst quoteOPEN \<and>
   total quoteOPEN = 77763 / 40"
  using totals_identity [OF eval_quoteOPEN] eval_quoteOPEN
  by (simp add: quoteOPEN_def)

text \<open>
  C3. For a Channel Letters quote the letter count is the number of non-whitespace
  characters of the text: it is the count in the first line item, and it is 0 exactly when
  the text is empty or all white space, in which case the quote is still returned. The raw
  cost before the floor is the sum the specification writes, and the fabrication cost
  before the rush order is the maximum of the raw cost and the minimum price.
\<close>

theorem channel_letters_cost:
  assumes "HEIGHT_TIERS (INSTALLATION P) \<noteq> []"
  shows "\<exists>r. calculateQuote P CHANNEL_LETTERS dimensions text variant installConfig isRush
            hasLamination lightboxDepth = Inr r \<and>
          hd (fabAdders (breakdown r)) =
            LettersBase (countNonWhitespace text)
              (BASE_PER_LETTER (FAB_CHANNEL_LETTERS (FABRICATION P)))
              (real (countNonWhitespace text)
                 * BASE_PER_LETTER (FAB_CHANNEL_LETTERS (FABRICATION P))) \<and>
          (countNonWhitespace text = 0 \<longleftrightarrow> list_all isWhitespace text) \<and>
          channelLettersRaw (FAB_CHANNEL_LETTERS (FABRICATION P)) dimensions text variant =
            (countNonWhitespace text,
             specChannelLettersRaw (FAB_CHANNEL_LETTERS (FABRICATION P)) dimensions text variant,
             snd (snd (channelLettersRaw (FAB_CHANNEL_LETTERS (FABRICATION P)) dimensions text
                         variant))) \<and>
          fst (fabrication P CHANNEL_LETTERS dimensions text variant hasLamination lightboxDepth) =
            max (specChannelLettersRaw (FAB_CHANNEL_LETTERS (FABRICATION P)) dimensions text
                   variant)
                (CL_MIN_PRICE (FAB_CHANNEL_LETTERS (FABRICATION P))) \<and>
          fabricationCost r =
            (if isRush
             then max (specChannelLettersRaw (FAB_CHANNEL_LETTERS (FABRICATION P)) dimensions
                         text variant)
                      (CL_MIN_PRICE (FAB_CHANNEL_LETTERS (FABRICATION P)))
                  * (1 + RUSH_ORDER_PERCENT (FABRICATION P))
             else max (specChannelLettersRaw (FAB_CHANNEL_LETTERS (FABRICATION P)) dimensions
                         text variant)
                      (CL_MIN_PRICE (FAB_CHANNEL_LETTERS (FABRICATION P))))"
proof -
  let ?rules = "FAB_CHANNEL_LETTERS (FABRICATION P)"
  let ?raw = "channelLettersRaw ?rules dimensions text variant"
  obtain r where r: "calculateQuote P CHANNEL_LETTERS dimensions text variant installConfig
      isRush hasLamination lightboxDepth = Inr r"
    using calculateQuote_total [OF assms] by blast
  have fab: "fst (fabrication P CHANNEL_LETTERS dimensions text variant hasLamination
                    lightboxDepth) =
             max (specChannelLettersRaw ?rules dimensions text variant) (CL_MIN_PRICE ?rules)"
    by (simp add: fabrication_channel_letters fst_applyMinimum channelLettersRaw_cost)
  have items: "hd (fabAdders (breakdown r)) =
      LettersBase (countNonWhitespace text) (BASE_PER_LETTER ?rules)
        (real (countNonWhitespace text) * BASE_PER_LETTER ?rules)"
    by (simp add: calculateQuote_Inr(3) [OF r] snd_applyRush fabrication_channel_letters
          snd_applyMinimum channelLettersRaw_items)
  have triple: "?raw = (countNonWhitespace text,
      specChannelLettersRaw ?rules dimensions text variant, snd (snd ?raw))"
    using channelLettersRaw_count [of ?rules dimensions "text" variant]
      channelLettersRaw_cost [of ?rules dimensions "text" variant]
    by (cases ?raw) simp
  have cost: "fabricationCost r =
      (if isRush
       then max (specChannelLettersRaw ?rules dimensions text variant) (CL_MIN_PRICE ?rules)
            * (1 + RUSH_ORDER_PERCENT (FABRICATION P))
       else max (specChannelLettersRaw ?rules dimensions text variant) (CL_MIN_PRICE ?rules))"
    by (simp add: calculateQuote_Inr(1) [OF r] fst_applyRush fab algebra_simps)
  show ?thesis
    by (intro exI [of _ r] conjI r fab items triple cost countNonWhitespace_zero_iff)
qed

theorem channel_letters_cost_witness:
  "HEIGHT_TIERS (INSTALLATION samplePricing) \<noteq> [] \<and>
   (\<exists>r. calculateQuote samplePricing CHANNEL_LETTERS dimsOPEN textSpaced frontLit sampleInstall
          False False 4 = Inr r \<and>
        hd (fabAdders (breakdown r)) = LettersBase 2 85 170 \<and>
        fabricationCost r = 600) \<and>
   channelLettersRaw (FAB_CHANNEL_LETTERS (FABRICATION samplePricing)) dimsOPEN textSpaced
     frontLit =
     (2, 384, [LettersBase 2 85 170, HeightAdder 18 144, FrontLitUpgrade 70])"
proof -
  have tiers: "HEIGHT_TIERS (INSTALLATION samplePricing) \<noteq> []"
    by (simp add: samplePricing_def)
  have n: "countNonWhitespace textSpaced = 2"
    by (simp add: textSpaced_def isWhitespace_def)
  have raw: "specChannelLettersRaw (FAB_CHANNEL_LETTERS (FABRICATION samplePricing)) dimsOPEN
               textSpaced frontLit = 384"
    by (simp add: specChannelLettersRaw_def lightingRate_def n samplePricing_def dimsOPEN_def
          frontLit_def)
  have items: "snd (snd (channelLettersRaw (FAB_CHANNEL_LETTERS (FABRICATION samplePricing))
                 dimsOPEN textSpaced frontLit)) =
               [LettersBase 2 85 170, HeightAdder 18 144, FrontLitUpgrade 70]"
    by (simp add: channelLettersRaw_items n samplePricing_def dimsOPEN_def frontLit_def)
  have base: "BASE_PER_LETTER (FAB_CHANNEL_LETTERS (FABRICATION samplePricing)) = 85"
    and floor: "CL_MIN_PRICE (FAB_CHANNEL_LETTERS (FABRICATION samplePricing)) = 600"
    by (simp_all add: samplePricing_def)
  show ?thesis
    using channel_letters_cost [OF tiers, of dimsOPEN textSpaced frontLit sampleInstall False
        False 4]
    by (auto simp add: tiers n raw items base floor)
qed

text \<open>
  C5. The fabrication cost with the rush order is the fabrication cost of the same input
  without it, times one plus the rush percentage, for every sign type; the cost without
  rush is the result of the branch computation, which for each of the three sign types is
  the maximum of the raw cost and the minimum price, so the surcharge applies after the
  floor. The rush line item is appended to the line items.
\<close>

theorem rush_surcharge:
  assumes "calculateQuote P signType dimensions text variant installConfig True hasLamination
             lightboxDepth = Inr r1"
      and "calculateQuote P signType dimensions text variant installConfig False hasLamination
             lightboxDepth = Inr r0"
  shows "fabricationCost r1 = fabricationCost r0 * (1 + RUSH_ORDER_PERCENT (FABRICATION P)) \<and>
         fabAdders (breakdown r1) =
           fabAdders (breakdown r0)
           @ [RushOrder (fabricationCost r0 * RUSH_ORDER_PERCENT (FABRICATION P))] \<and>
         fabricationCost r0 =
           fst (fabrication P signType dimensions text variant hasLamination lightboxDepth) \<and>
         (signType = CHANNEL_LETTERS \<longrightarrow>
            fabricationCost r0 =
              max (fst (snd (channelLettersRaw (FAB_CHANNEL_LETTERS (FABRICATION P)) dimensions
                               text variant)))
                  (CL_MIN_PRICE (FAB_CHANNEL_LETTERS (FABRICATION P)))) \<and>
         (signType = LIGHTBOX \<longrightarrow>
            fabricationCost r0 =
              max (fst (lightboxRaw (FAB_LIGHTBOX (FABRICATION P)) dimensions variant
                          lightboxDepth))
                  (LB_MIN_PRICE (FAB_LIGHTBOX (FABRICATION P)))) \<and>
         (signType = WINDOW_VINYL \<longrightarrow>
            fabricationCost r0 =
              max (fst (windowVinylRaw (FAB_WINDOW_VINYL (FABRICATION P)) dimensions
                          hasLamination))
                  (WV_MIN_PRICE (FAB_WINDOW_VINYL (FABRICATION P))))"
  by (simp add: calculateQuote_Inr(1,3) [OF assms(1)] calculateQuote_Inr(1,3) [OF assms(2)]
        applyRush_True applyRush_False fabrication_channel_letters fabrication_lightbox
        fabrication_window_vinyl fst_applyMinimum algebra_simps)

theorem rush_surcharge_witness:
  "calculateQuote samplePricing CHANNEL_LETTERS dimsOPEN textOPEN frontLit sampleInstall
     True False 4 = Inr quoteOPENrush \<and>
   calculateQuote samplePricing CHANNEL_LETTERS dimsOPEN textOPEN frontLit sampleInstall
     False False 4 = Inr quoteOPEN \<and>
   fabricationCost quoteOPENrush = fabricationCost quoteOPEN * (1 + 12 / 100) \<and>
   fabAdders (breakdown quoteOPENrush) = fabAdders (breakdown quoteOPEN) @ [RushOrder (2304 / 25)]"
  using rush_surcharge [OF eval_quoteOPENrush eval_quoteOPEN] eval_quoteOPENrush eval_quoteOPEN
  by (simp add: quoteOPEN_def quoteOPENrush_def samplePricing_def sampleInstallResult_def)

text \<open>
  C4. For a Channel Letters or Lightbox quote the minimum line item is among the
  fabrication line items exactly when the raw cost is below the minimum price, not when
  they are equal; it then follows the branch's other items and precedes the rush item.
  A Window Vinyl quote never has it.
\<close>

theorem minimum_line_item:
  assumes "calculateQuote P signType dimensions text variant installConfig isRush hasLamination
             lightboxDepth = Inr r"
  shows "(signType = CHANNEL_LETTERS \<longrightarrow>
           (list_ex isMinimumItem (fabAdders (breakdown r)) \<longleftrightarrow>
              fst (snd (channelLettersRaw (FAB_CHANNEL_LETTERS (FABRICATION P)) dimensions text
                          variant))
              < CL_MIN_PRICE (FAB_CHANNEL_LETTERS (FABRICATION P))) \<and>
           snd (fabrication P signType dimensions text variant hasLamination lightboxDepth) =
             snd (snd (channelLettersRaw (FAB_CHANNEL_LETTERS (FABRICATION P)) dimensions text
                         variant))
             @ (if fst (snd (channelLettersRaw (FAB_CHANNEL_LETTERS (FABRICATION P)) dimensions
                               text variant))
                   < CL_MIN_PRICE (FAB_CHANNEL_LETTERS (FABRICATION P))
                then [MinimumPricingApplied (CL_MIN_PRICE (FAB_CHANNEL_LETTERS (FABRICATION P)))]
                else [])) \<and>
         (signType = LIGHTBOX \<longrightarrow>
           (list_ex isMinimumItem (fabAdders (breakdown r)) \<longleftrightarrow>
              fst (lightboxRaw (FAB_LIGHTBOX (FABRICATION P)) dimensions variant lightboxDepth)
              < LB_MIN_PRICE (FAB_LIGHTBOX (FABRICATION P))) \<and>
           snd (fabrication P signType dimensions text variant hasLamination lightboxDepth) =
             snd (lightboxRaw (FAB_LIGHTBOX (FABRICATION P)) dimensions variant lightboxDepth)
             @ (if fst (lightboxRaw (FAB_LIGHTBOX (FABRICATION P)) dimensions variant
                          lightboxDepth)
                   < LB_MIN_PRICE (FAB_LIGHTBOX (FABRICATION P))
                then [MinimumPricingApplied (LB_MIN_PRICE (FAB_LIGHTBOX (FABRICATION P)))]
                else [])) \<and>
         (signType = WINDOW_VINYL \<longrightarrow> \<not> list_ex isMinimumItem (fabAdders (breakdown r))) \<and>
         fabAdders (breakdown r) =
           snd (fabrication P signType dimensions text variant hasLamination lightboxDepth)
           @ (if isRush
              then [RushOrder
                      (fst (fabrication P signType dimensions text variant hasLamination
                              lightboxDepth)
                       * RUSH_ORDER_PERCENT (FABRICATION P))]
              else [])"
proof -
  have items: "fabAdders (breakdown r) =
      snd (fabrication P signType dimensions text variant hasLamination lightboxDepth)
      @ (if isRush
         then [RushOrder
                 (fst (fabrication P signType dimensions text variant hasLamination
                         lightboxDepth)
                  * RUSH_ORDER_PERCENT (FABRICATION P))]
         else [])"
    by (simp add: calculateQuote_Inr(3) [OF assms] snd_applyRush)
  consider (cl) "signType = CHANNEL_LETTERS" | (lb) "signType = LIGHTBOX"
    | (wv) "signType = WINDOW_VINYL"
    | (other) "signType \<noteq> CHANNEL_LETTERS" "signType \<noteq> LIGHTBOX" "signType \<noteq> WINDOW_VINYL"
    by blast
  then show ?thesis
  proof cases
    case cl
    show ?thesis
      unfolding items cl
      using channelLettersRaw_no_minimum
        [of "FAB_CHANNEL_LETTERS (FABRICATION P)" dimensions "text" variant]
      by (simp add: fabrication_channel_letters snd_applyMinimum sign_types_distinct)
  next
    case lb
    show ?thesis
      unfolding items lb
      using lightboxRaw_no_minimum
        [of "FAB_LIGHTBOX (FABRICATION P)" dimensions variant lightboxDepth]
      by (simp add: fabrication_lightbox snd_applyMinimum sign_types_distinct)
  next
    case wv
    show ?thesis
      unfolding items wv
      using windowVinylRaw_no_minimum
        [of "FAB_WINDOW_VINYL (FABRICATION P)" dimensions hasLamination]
      by (simp add: fabrication_window_vinyl sign_types_distinct)
  next
    case other
    then show ?thesis
      by (simp add: items)
  qed
qed

theorem minimum_line_item_witness:
  "calculateQuote samplePricing LIGHTBOX dimsSmall [] frontLit sampleInstall False False 4 =
     Inr quoteSmallBox \<and>
   LIGHTBOX = LIGHTBOX \<and>
   fst (lightboxRaw (FAB_LIGHTBOX (FABRICATION samplePricing)) dimsSmall frontLit 4) = 225 \<and>
   LB_MIN_PRICE (FAB_LIGHTBOX (FABRICATION samplePricing)) = 450 \<and>
   list_ex isMinimumItem (fabAdders (breakdown quoteSmallBox)) \<and>
   fabAdders (breakdown quoteSmallBox) =
     [SizeSqft 1 65 65, InternalIllumination 160, MinimumPricingApplied 450]"
proof -
  have raw: "fst (lightboxRaw (FAB_LIGHTBOX (FABRICATION samplePricing)) dimsSmall frontLit 4)
             = 225"
    by (simp add: lightboxRaw_def Let_def samplePricing_def dimsSmall_def frontLit_def)
  have floor: "LB_MIN_PRICE (FAB_LIGHTBOX (FABRICATION samplePricing)) = 450"
    by (simp add: samplePricing_def)
  have items: "fabAdders (breakdown quoteSmallBox) =
                 [SizeSqft 1 65 65, InternalIllumination 160, MinimumPricingApplied 450]"
    by (simp add: quoteSmallBox_def sampleInstallResult_def)
  have "list_ex isMinimumItem (fabAdders (breakdown quoteSmallBox)) \<longleftrightarrow>
          fst (lightboxRaw (FAB_LIGHTBOX (FABRICATION samplePricing)) dimsSmall frontLit 4)
          < LB_MIN_PRICE (FAB_LIGHTBOX (FABRICATION samplePricing))"
    using minimum_line_item [OF eval_quoteSmallBox, THEN conjunct2, THEN conjunct1]
    by (rule mp [THEN conjunct1, OF _ refl])
  then have "list_ex isMinimumItem (fabAdders (breakdown quoteSmallBox))"
    by (simp only: raw floor)
  with raw floor items eval_quoteSmallBox show ?thesis
    by (intro conjI refl)
qed

text \<open>
  C7. For a Window Vinyl quote with lamination the lamination line item carries the
  lamination percentage of the raw cost before lamination (square feet times the rate per
  square foot), and the fabrication cost before the rush order is the maximum of the raw
  cost plus that amount and the minimum price: the amount is added before the floor and
  does not depend on it.
\<close>

theorem lamination_base:
  assumes "calculateQuote P WINDOW_VINYL dimensions text variant installConfig isRush True
             lightboxDepth = Inr r"
  shows "take 2 (fabAdders (breakdown r)) =
           [SizeSqft (widthIn dimensions * heightIn dimensions / 144)
              (WV_PER_SQFT (FAB_WINDOW_VINYL (FABRICATION P)))
              (widthIn dimensions * heightIn dimensions / 144
               * WV_PER_SQFT (FAB_WINDOW_VINYL (FABRICATION P))),
            Lamination
              (LAMINATION_PERCENT (FAB_WINDOW_VINYL (FABRICATION P))
               * (widthIn dimensions * heightIn dimensions / 144
                  * WV_PER_SQFT (FAB_WINDOW_VINYL (FABRICATION P))))] \<and>
         fst (fabrication P WINDOW_VINYL dimensions text variant True lightboxDepth) =
           max (widthIn dimensions * heightIn dimensions / 144
                  * WV_PER_SQFT (FAB_WINDOW_VINYL (FABRICATION P))
                + LAMINATION_PERCENT (FAB_WINDOW_VINYL (FABRICATION P))
                  * (widthIn dimensions * heightIn dimensions / 144
                     * WV_PER_SQFT (FAB_WINDOW_VINYL (FABRICATION P))))
               (WV_MIN_PRICE (FAB_WINDOW_VINYL (FABRICATION P))) \<and>
         fabricationCost r =
           fst (fabrication P WINDOW_VINYL dimensions text variant True lightboxDepth)
           * (if isRush then 1 + RUSH_ORDER_PERCENT (FABRICATION P) else 1) \<and>
         length (filter isLaminationItem (fabAdders (breakdown r))) = 1"
  by (simp add: calculateQuote_Inr(1,3) [OF assms] snd_applyRush fst_applyRush
        fabrication_window_vinyl windowVinylRaw_laminated algebra_simps)

theorem lamination_base_witness:
  "calculateQuote samplePricing WINDOW_VINYL dimsVinyl [] nonLit sampleInstall True True 4 =
     Inr quoteVinyl \<and>
   take 2 (fabAdders (breakdown quoteVinyl)) = [SizeSqft 24 12 288, Lamination 72] \<and>
   fst (fabrication samplePricing WINDOW_VINYL dimsVinyl [] nonLit True 4) = 360 \<and>
   fabricationCost quoteVinyl = 360 * (1 + 12 / 100)"
  using lamination_base [OF eval_quoteVinyl] eval_quoteVinyl
  by (simp add: samplePricing_def dimsVinyl_def)

text \<open>
  C6. With a non-empty tier table the labor tier is the first tier of the table whose
  \<^verbatim>\<open>maxFt\<close> is at least the installation height; a height equal to the \<^verbatim>\<open>maxFt\<close> of a
  tier of an ascending table selects that tier; a height above every \<^verbatim>\<open>maxFt\<close> selects
  the last tier and the quote is still returned. The labor cost is the tier's hours times
  the labor rate, and its line item always follows the base trip fee.
\<close>

theorem tier_selection:
  assumes "HEIGHT_TIERS (INSTALLATION P) \<noteq> []"
  shows "\<exists>tier r.
           findTier (HEIGHT_TIERS (INSTALLATION P)) (heightFeet installConfig) = Some tier \<and>
           calculateQuote P signType dimensions text variant installConfig isRush hasLamination
             lightboxDepth = Inr r \<and>
           ((\<exists>t\<in>set (HEIGHT_TIERS (INSTALLATION P)). heightFeet installConfig \<le> maxFt t) \<longrightarrow>
              (\<exists>i<length (HEIGHT_TIERS (INSTALLATION P)).
                 tier = HEIGHT_TIERS (INSTALLATION P) ! i \<and>
                 heightFeet installConfig \<le> maxFt (HEIGHT_TIERS (INSTALLATION P) ! i) \<and>
                 (\<forall>j<i. maxFt (HEIGHT_TIERS (INSTALLATION P) ! j) < heightFeet installConfig))) \<and>
           (ascending (HEIGHT_TIERS (INSTALLATION P)) \<longrightarrow>
              (\<forall>k<length (HEIGHT_TIERS (INSTALLATION P)).
                 heightFeet installConfig = maxFt (HEIGHT_TIERS (INSTALLATION P) ! k) \<longrightarrow>
                 tier = HEIGHT_TIERS (INSTALLATION P) ! k)) \<and>
           ((\<forall>t\<in>set (HEIGHT_TIERS (INSTALLATION P)). maxFt t < heightFeet installConfig) \<longrightarrow>
              tier = last (HEIGHT_TIERS (INSTALLATION P))) \<and>
           installLabor (breakdown r) = hours tier * LABOR_RATE (INSTALLATION P) \<and>
           take 2 (installAdders (breakdown r)) =
             [BaseTripFee (BASE_TRIP (INSTALLATION P)),
              Labor (hours tier) (LABOR_RATE (INSTALLATION P))
                (hours tier * LABOR_RATE (INSTALLATION P))]"
proof -
  let ?tiers = "HEIGHT_TIERS (INSTALLATION P)"
  let ?h = "heightFeet installConfig"
  obtain tier where tier: "findTier ?tiers ?h = Some tier"
    using findTier_nonempty [OF assms] by blast
  obtain r where r: "calculateQuote P signType dimensions text variant installConfig isRush
      hasLamination lightboxDepth = Inr r"
    using calculateQuote_total [OF assms] by blast
  have first: "(\<exists>t\<in>set ?tiers. ?h \<le> maxFt t) \<longrightarrow>
      (\<exists>i<length ?tiers. tier = ?tiers ! i \<and> ?h \<le> maxFt (?tiers ! i) \<and>
         (\<forall>j<i. maxFt (?tiers ! j) < ?h))"
    using findTier_first [OF tier] by blast
  have boundary: "ascending ?tiers \<longrightarrow>
      (\<forall>k<length ?tiers. ?h = maxFt (?tiers ! k) \<longrightarrow> tier = ?tiers ! k)"
    using findTier_boundary [OF tier] by blast
  have fallback: "(\<forall>t\<in>set ?tiers. maxFt t < ?h) \<longrightarrow> tier = last ?tiers"
    using findTier_fallback [OF tier] by blast
  show ?thesis
    by (intro exI [of _ tier] exI [of _ r] conjI tier r first boundary fallback
          quote_labor [OF r tier])
qed

theorem tier_selection_witness:
  "HEIGHT_TIERS (INSTALLATION samplePricing) \<noteq> [] \<and>
   ascending (HEIGHT_TIERS (INSTALLATION samplePricing)) \<and>
   heightFeet installTwenty = maxFt (HEIGHT_TIERS (INSTALLATION samplePricing) ! 1) \<and>
   list_all (\<lambda>t. maxFt t < heightFeet installHigh)
     (HEIGHT_TIERS (INSTALLATION samplePricing)) \<and>
   (\<exists>r. calculateQuote samplePricing CHANNEL_LETTERS dimsOPEN textOPEN frontLit installTwenty
          False False 4 = Inr r \<and>
        installLabor (breakdown r) = 5 * 95 \<and>
        take 2 (installAdders (breakdown r)) = [BaseTripFee 150, Labor 5 95 475]) \<and>
   (\<exists>r. calculateQuote samplePricing CHANNEL_LETTERS dimsOPEN textOPEN frontLit installHigh
          False False 4 = Inr r \<and>
        installLabor (breakdown r) = 8 * 95 \<and>
        take 2 (installAdders (breakdown r)) = [BaseTripFee 150, Labor 8 95 760])"
proof -
  let ?tiers = "HEIGHT_TIERS (INSTALLATION samplePricing)"
  have tiers: "?tiers \<noteq> []"
    by (simp add: sample_tiers)
  have asc: "ascending ?tiers"
    by (simp add: sample_tiers ascending_def)
  have eq: "heightFeet installTwenty = maxFt (?tiers ! 1)"
    by (simp add: sample_tiers installTwenty_def sampleInstall_def)
  have above: "\<forall>t\<in>set ?tiers. maxFt t < heightFeet installHigh"
    by (simp add: sample_tiers installHigh_def sampleInstall_def)
  have rates: "LABOR_RATE (INSTALLATION samplePricing) = 95"
    "BASE_TRIP (INSTALLATION samplePricing) = 150"
    by (simp_all add: samplePricing_def)
  from tier_selection [OF tiers, of installTwenty CHANNEL_LETTERS dimsOPEN textOPEN frontLit
      False False 4]
  obtain tier r where a:
    "calculateQuote samplePricing CHANNEL_LETTERS dimsOPEN textOPEN frontLit installTwenty
       False False 4 = Inr r"
    "ascending ?tiers \<longrightarrow>
       (\<forall>k<length ?tiers. heightFeet installTwenty = maxFt (?tiers ! k) \<longrightarrow> tier = ?tiers ! k)"
    "installLabor (breakdown r) = hours tier * LABOR_RATE (INSTALLATION samplePricing)"
    "take 2 (installAdders (breakdown r)) =
       [BaseTripFee (BASE_TRIP (INSTALLATION samplePricing)),
        Labor (hours tier) (LABOR_RATE (INSTALLATION samplePricing))
          (hours tier * LABOR_RATE (INSTALLATION samplePricing))]"
    by blast
  have "tier = ?tiers ! 1"
    by (rule a(2) [rule_format, OF asc _ eq]) (simp add: sample_tiers)
  then have tier: "hours tier = 5"
    by (simp add: sample_tiers)
  from tier_selection [OF tiers, of installHigh CHANNEL_LETTERS dimsOPEN textOPEN frontLit
      False False 4]
  obtain tier' r' where b:
    "calculateQuote samplePricing CHANNEL_LETTERS dimsOPEN textOPEN frontLit installHigh
       False False 4 = Inr r'"
    "(\<forall>t\<in>set ?tiers. maxFt t < heightFeet installHigh) \<longrightarrow> tier' = last ?tiers"
    "installLabor (breakdown r') = hours tier' * LABOR_RATE (INSTALLATION samplePricing)"
    "take 2 (installAdders (breakdown r')) =
       [BaseTripFee (BASE_TRIP (INSTALLATION samplePricing)),
        Labor (hours tier') (LABOR_RATE (INSTALLATION samplePricing))
          (hours tier' * LABOR_RATE (INSTALLATION samplePricing))]"
    by blast
  have "tier' = last ?tiers"
    using b(2) above by blast
  then have tier': "hours tier' = 8"
    by (simp add: sample_tiers)
  have one: "\<exists>r. calculateQuote samplePricing CHANNEL_LETTERS dimsOPEN textOPEN frontLit
      installTwenty False False 4 = Inr r \<and>
      installLabor (breakdown r) = 5 * 95 \<and>
      take 2 (installAdders (breakdown r)) = [BaseTripFee 150, Labor 5 95 475]"
    using a(1,3,4) by (simp add: tier rates)
  have two: "\<exists>r. calculateQuote samplePricing CHANNEL_LETTERS dimsOPEN textOPEN frontLit
      installHigh False False 4 = Inr r \<and>
      installLabor (breakdown r) = 8 * 95 \<and>
      take 2 (installAdders (breakdown r)) = [BaseTripFee 150, Labor 8 95 760]"
    using b(1,3,4) by (simp add: tier' rates)
  have above': "list_all (\<lambda>t. maxFt t < heightFeet installHigh) ?tiers"
    using above by (simp add: list_all_iff)
  show ?thesis
    by (intro conjI tiers asc eq above' one two)
qed

text \<open>
  C1, as the code has it. The function validates none of its numeric arguments. Whatever
  the width, height, installation height and lightbox depth are, negative values
  included, a quote is returned as soon as the tier table is not empty, and an empty tier
  table is the only cause of an error. The quote is computed from the values as they are
  given: the width, the height and the depth enter the raw cost of their branch and the
  size line item unchanged, the fabrication cost is the maximum of that raw cost and the
  minimum price (so a raw cost below the minimum, a negative one included, is quoted at
  the minimum price), times the rush factor, and the installation height is compared with
  the tiers as it is, so that any height up to the first tier's ceiling is billed at the
  first tier.
\<close>

theorem no_numeric_validation:
  assumes "HEIGHT_TIERS (INSTALLATION P) \<noteq> []"
  shows "\<exists>r. calculateQuote P signType dimensions text variant installConfig isRush
            hasLamination lightboxDepth = Inr r \<and>
          calculateQuote P signType dimensions text variant installConfig isRush
            hasLamination lightboxDepth \<noteq> Inl e \<and>
          (signType = CHANNEL_LETTERS \<longrightarrow>
             fabricationCost r =
               max (real (countNonWhitespace text)
                      * BASE_PER_LETTER (FAB_CHANNEL_LETTERS (FABRICATION P))
                    + real (countNonWhitespace text) * heightIn dimensions
                      * PER_INCH_HEIGHT (FAB_CHANNEL_LETTERS (FABRICATION P))
                    + real (countNonWhitespace text)
                      * lightingRate (FAB_CHANNEL_LETTERS (FABRICATION P)) (lighting variant)
                    + (if roundedBacker variant
                       then BACKER_ADDER (FAB_CHANNEL_LETTERS (FABRICATION P)) else 0))
                   (CL_MIN_PRICE (FAB_CHANNEL_LETTERS (FABRICATION P)))
               * (if isRush then 1 + RUSH_ORDER_PERCENT (FABRICATION P) else 1)) \<and>
          (signType = LIGHTBOX \<longrightarrow>
             hd (fabAdders (breakdown r)) =
               SizeSqft (widthIn dimensions * heightIn dimensions / 144)
                 (LB_PER_SQFT (FAB_LIGHTBOX (FABRICATION P)))
                 (widthIn dimensions * heightIn dimensions / 144
                  * LB_PER_SQFT (FAB_LIGHTBOX (FABRICATION P))) \<and>
             fabricationCost r =
               max (widthIn dimensions * heightIn dimensions / 144
                      * LB_PER_SQFT (FAB_LIGHTBOX (FABRICATION P))
                    + (if lightboxDepth > DEPTH_BASE (FAB_LIGHTBOX (FABRICATION P))
                       then (lightboxDepth - DEPTH_BASE (FAB_LIGHTBOX (FABRICATION P)))
                            * DEPTH_ADDER_PER_INCH (FAB_LIGHTBOX (FABRICATION P))
                       else 0)
                    + (if lighting variant = FRONT_LIT
                       then LIGHTING_ADDER_FRONT_LIT (FAB_LIGHTBOX (FABRICATION P)) else 0))
                   (LB_MIN_PRICE (FAB_LIGHTBOX (FABRICATION P)))
               * (if isRush then 1 + RUSH_ORDER_PERCENT (FABRICATION P) else 1)) \<and>
          (signType = WINDOW_VINYL \<longrightarrow>
             hd (fabAdders (breakdown r)) =
               SizeSqft (widthIn dimensions * heightIn dimensions / 144)
                 (WV_PER_SQFT (FAB_WINDOW_VINYL (FABRICATION P)))
                 (widthIn dimensions * heightIn dimensions / 144
                  * WV_PER_SQFT (FAB_WINDOW_VINYL (FABRICATION P))) \<and>
             fabricationCost r =
               max (widthIn dimensions * heightIn dimensions / 144
                      * WV_PER_SQFT (FAB_WINDOW_VINYL (FABRICATION P))
                    + (if hasLamination
                       then widthIn dimensions * heightIn dimensions / 144
                            * WV_PER_SQFT (FAB_WINDOW_VINYL (FABRICATION P))
                            * LAMINATION_PERCENT (FAB_WINDOW_VINYL (FABRICATION P))
                       else 0))
                   (WV_MIN_PRICE (FAB_WINDOW_VINYL (FABRICATION P)))
               * (if isRush then 1 + RUSH_ORDER_PERCENT (FABRICATION P) else 1)) \<and>
          (heightFeet installConfig \<le> maxFt (hd (HEIGHT_TIERS (INSTALLATION P))) \<longrightarrow>
             installLabor (breakdown r) =
               hours (hd (HEIGHT_TIERS (INSTALLATION P))) * LABOR_RATE (INSTALLATION P)) \<and>
          ((\<forall>t\<in>set (HEIGHT_TIERS (INSTALLATION P)). maxFt t < heightFeet installConfig) \<longrightarrow>
             installLabor (breakdown r) =
               hours (last (HEIGHT_TIERS (INSTALLATION P))) * LABOR_RATE (INSTALLATION P))"
proof -
  let ?tiers = "HEIGHT_TIERS (INSTALLATION P)"
  obtain r where r: "calculateQuote P signType dimensions text variant installConfig isRush
      hasLamination lightboxDepth = Inr r"
    using calculateQuote_total [OF assms] by blast
  have noerr: "calculateQuote P signType dimensions text variant installConfig isRush
      hasLamination lightboxDepth \<noteq> Inl e"
    using r by simp
  obtain tier where tier: "findTier ?tiers (heightFeet installConfig) = Some tier"
    using findTier_nonempty [OF assms] by blast
  have labor: "installLabor (breakdown r) = hours tier * LABOR_RATE (INSTALLATION P)"
    by (rule quote_labor(1) [OF r tier])
  have low: "heightFeet installConfig \<le> maxFt (hd ?tiers) \<longrightarrow>
      installLabor (breakdown r) = hours (hd ?tiers) * LABOR_RATE (INSTALLATION P)"
  proof
    assume "heightFeet installConfig \<le> maxFt (hd ?tiers)"
    from findTier_head [OF assms this] tier have "tier = hd ?tiers" by simp
    with labor show "installLabor (breakdown r) = hours (hd ?tiers) * LABOR_RATE (INSTALLATION P)"
      by simp
  qed
  have high: "(\<forall>t\<in>set ?tiers. maxFt t < heightFeet installConfig) \<longrightarrow>
      installLabor (breakdown r) = hours (last ?tiers) * LABOR_RATE (INSTALLATION P)"
  proof
    assume "\<forall>t\<in>set ?tiers. maxFt t < heightFeet installConfig"
    from findTier_fallback [OF tier this] labor
    show "installLabor (breakdown r) = hours (last ?tiers) * LABOR_RATE (INSTALLATION P)"
      by simp
  qed
  have cl: "signType = CHANNEL_LETTERS \<longrightarrow>
      fabricationCost r =
        max (real (countNonWhitespace text)
               * BASE_PER_LETTER (FAB_CHANNEL_LETTERS (FABRICATION P))
             + real (countNonWhitespace text) * heightIn dimensions
               * PER_INCH_HEIGHT (FAB_CHANNEL_LETTERS (FABRICATION P))
             + real (countNonWhitespace text)
               * lightingRate (FAB_CHANNEL_LETTERS (FABRICATION P)) (lighting variant)
             + (if roundedBacker variant
                then BACKER_ADDER (FAB_CHANNEL_LETTERS (FABRICATION P)) else 0))
            (CL_MIN_PRICE (FAB_CHANNEL_LETTERS (FABRICATION P)))
        * (if isRush then 1 + RUSH_ORDER_PERCENT (FABRICATION P) else 1)"
  proof
    assume st: "signType = CHANNEL_LETTERS"
    show "fabricationCost r =
        max (real (countNonWhitespace text)
               * BASE_PER_LETTER (FAB_CHANNEL_LETTERS (FABRICATION P))
             + real (countNonWhitespace text) * heightIn dimensions
               * PER_INCH_HEIGHT (FAB_CHANNEL_LETTERS (FABRICATION P))
             + real (countNonWhitespace text)
               * lightingRate (FAB_CHANNEL_LETTERS (FABRICATION P)) (lighting variant)
             + (if roundedBacker variant
                then BACKER_ADDER (FAB_CHANNEL_LETTERS (FABRICATION P)) else 0))
            (CL_MIN_PRICE (FAB_CHANNEL_LETTERS (FABRICATION P)))
        * (if isRush then 1 + RUSH_ORDER_PERCENT (FABRICATION P) else 1)"
      using quote_channel_letters_cost [OF r [unfolded st]]
      by (simp only: specChannelLettersRaw_def)
  qed
  have lb: "signType = LIGHTBOX \<longrightarrow>
      hd (fabAdders (breakdown r)) =
        SizeSqft (widthIn dimensions * heightIn dimensions / 144)
          (LB_PER_SQFT (FAB_LIGHTBOX (FABRICATION P)))
          (widthIn dimensions * heightIn dimensions / 144
           * LB_PER_SQFT (FAB_LIGHTBOX (FABRICATION P))) \<and>
      fabricationCost r =
        max (widthIn dimensions * heightIn dimensions / 144
               * LB_PER_SQFT (FAB_LIGHTBOX (FABRICATION P))
             + (if lightboxDepth > DEPTH_BASE (FAB_LIGHTBOX (FABRICATION P))
                then (lightboxDepth - DEPTH_BASE (FAB_LIGHTBOX (FABRICATION P)))
                     * DEPTH_ADDER_PER_INCH (FAB_LIGHTBOX (FABRICATION P))
                else 0)
             + (if lighting variant = FRONT_LIT
                then LIGHTING_ADDER_FRONT_LIT (FAB_LIGHTBOX (FABRICATION P)) else 0))
            (LB_MIN_PRICE (FAB_LIGHTBOX (FABRICATION P)))
        * (if isRush then 1 + RUSH_ORDER_PERCENT (FABRICATION P) else 1)"
  proof (intro impI conjI)
    assume st: "signType = LIGHTBOX"
    show "hd (fabAdders (breakdown r)) =
        SizeSqft (widthIn dimensions * heightIn dimensions / 144)
          (LB_PER_SQFT (FAB_LIGHTBOX (FABRICATION P)))
          (widthIn dimensions * heightIn dimensions / 144
           * LB_PER_SQFT (FAB_LIGHTBOX (FABRICATION P)))"
      by (rule quote_lightbox_first_item [OF r [unfolded st]])
    show "fabricationCost r =
        max (widthIn dimensions * heightIn dimensions / 144
               * LB_PER_SQFT (FAB_LIGHTBOX (FABRICATION P))
             + (if lightboxDepth > DEPTH_BASE (FAB_LIGHTBOX (FABRICATION P))
                then (lightboxDepth - DEPTH_BASE (FAB_LIGHTBOX (FABRICATION P)))
                     * DEPTH_ADDER_PER_INCH (FAB_LIGHTBOX (FABRICATION P))
                else 0)
             + (if lighting variant = FRONT_LIT
                then LIGHTING_ADDER_FRONT_LIT (FAB_LIGHTBOX (FABRICATION P)) else 0))
            (LB_MIN_PRICE (FAB_LIGHTBOX (FABRICATION P)))
        * (if isRush then 1 + RUSH_ORDER_PERCENT (FABRICATION P) else 1)"
      using quote_lightbox_cost [OF r [unfolded st]]
      by (simp only: lightboxRaw_explicit fst_conv)
  qed
  have wv: "signType = WINDOW_VINYL \<longrightarrow>
      hd (fabAdders (breakdown r)) =
        SizeSqft (widthIn dimensions * heightIn dimensions / 144)
          (WV_PER_SQFT (FAB_WINDOW_VINYL (FABRICATION P)))
          (widthIn dimensions * heightIn dimensions / 144
           * WV_PER_SQFT (FAB_WINDOW_VINYL (FABRICATION P))) \<and>
      fabricationCost r =
        max (widthIn dimensions * heightIn dimensions / 144
               * WV_PER_SQFT (FAB_WINDOW_VINYL (FABRICATION P))
             + (if hasLamination
                then widthIn dimensions * heightIn dimensions / 144
                     * WV_PER_SQFT (FAB_WINDOW_VINYL (FABRICATION P))
                     * LAMINATION_PERCENT (FAB_WINDOW_VINYL (FABRICATION P))
                else 0))
            (WV_MIN_PRICE (FAB_WINDOW_VINYL (FABRICATION P)))
        * (if isRush then 1 + RUSH_ORDER_PERCENT (FABRICATION P) else 1)"
  proof (intro impI conjI)
    assume st: "signType = WINDOW_VINYL"
    show "hd (fabAdders (breakdown r)) =
        SizeSqft (widthIn dimensions * heightIn dimensions / 144)
          (WV_PER_SQFT (FAB_WINDOW_VINYL (FABRICATION P)))
          (widthIn dimensions * heightIn dimensions / 144
           * WV_PER_SQFT (FAB_WINDOW_VINYL (FABRICATION P)))"
      by (rule quote_window_vinyl_first_item [OF r [unfolded st]])
    show "fabricationCost r =
        max (widthIn dimensions * heightIn dimensions / 144
               * WV_PER_SQFT (FAB_WINDOW_VINYL (FABRICATION P))
             + (if hasLamination
                then widthIn dimensions * heightIn dimensions / 144
                     * WV_PER_SQFT (FAB_WINDOW_VINYL (FABRICATION P))
                     * LAMINATION_PERCENT (FAB_WINDOW_VINYL (FABRICATION P))
                else 0))
            (WV_MIN_PRICE (FAB_WINDOW_VINYL (FABRICATION P)))
        * (if isRush then 1 + RUSH_ORDER_PERCENT (FABRICATION P) else 1)"
      using quote_window_vinyl_cost [OF r [unfolded st]]
      by (simp only: windowVinylRaw_explicit fst_conv)
  qed
  show ?thesis
    by (intro exI [of _ r] conjI r noerr cl lb wv low high)
qed

theorem no_numeric_validation_witness:
  "HEIGHT_TIERS (INSTALLATION samplePricing) \<noteq> [] \<and>
   LIGHTBOX = LIGHTBOX \<and>
   widthIn dimsNegative < 0 \<and>
   heightFeet installNegative < 0 \<and>
   heightFeet installNegative \<le> maxFt (hd (HEIGHT_TIERS (INSTALLATION samplePricing))) \<and>
   (\<exists>r. calculateQuote samplePricing LIGHTBOX dimsNegative [] frontLit installNegative False
          False (- 3) = Inr r \<and>
        hd (fabAdders (breakdown r)) = SizeSqft (- 8) 65 (- 520) \<and>
        fabricationCost r = max (- 360) 450 \<and>
        fabricationCost r = 450 \<and>
        installLabor (breakdown r) = 285)"
proof -
  have tiers: "HEIGHT_TIERS (INSTALLATION samplePricing) \<noteq> []"
    by (simp add: sample_tiers)
  have width: "widthIn dimsNegative < 0"
    by (simp add: dimsNegative_def)
  have height: "heightFeet installNegative < 0"
    by (simp add: installNegative_def sampleInstall_def)
  have low: "heightFeet installNegative
      \<le> maxFt (hd (HEIGHT_TIERS (INSTALLATION samplePricing)))"
    by (simp add: sample_tiers installNegative_def sampleInstall_def)
  from no_numeric_validation [OF tiers, of LIGHTBOX dimsNegative "[]" frontLit installNegative
      False False "- 3"]
  obtain r where r:
    "calculateQuote samplePricing LIGHTBOX dimsNegative [] frontLit installNegative False
       False (- 3) = Inr r"
    and lb: "LIGHTBOX = LIGHTBOX \<longrightarrow>
      hd (fabAdders (breakdown r)) =
        SizeSqft (widthIn dimsNegative * heightIn dimsNegative / 144)
          (LB_PER_SQFT (FAB_LIGHTBOX (FABRICATION samplePricing)))
          (widthIn dimsNegative * heightIn dimsNegative / 144
           * LB_PER_SQFT (FAB_LIGHTBOX (FABRICATION samplePricing))) \<and>
      fabricationCost r =
        max (widthIn dimsNegative * heightIn dimsNegative / 144
               * LB_PER_SQFT (FAB_LIGHTBOX (FABRICATION samplePricing))
             + (if - 3 > DEPTH_BASE (FAB_LIGHTBOX (FABRICATION samplePricing))
                then (- 3 - DEPTH_BASE (FAB_LIGHTBOX (FABRICATION samplePricing)))
                     * DEPTH_ADDER_PER_INCH (FAB_LIGHTBOX (FABRICATION samplePricing))
                else 0)
             + (if lighting frontLit = FRONT_LIT
                then LIGHTING_ADDER_FRONT_LIT (FAB_LIGHTBOX (FABRICATION samplePricing))
                else 0))
            (LB_MIN_PRICE (FAB_LIGHTBOX (FABRICATION samplePricing)))
        * (if False then 1 + RUSH_ORDER_PERCENT (FABRICATION samplePricing) else 1)"
    and labor: "heightFeet installNegative
        \<le> maxFt (hd (HEIGHT_TIERS (INSTALLATION samplePricing))) \<longrightarrow>
      installLabor (breakdown r) =
        hours (hd (HEIGHT_TIERS (INSTALLATION samplePricing)))
        * LABOR_RATE (INSTALLATION samplePricing)"
    by blast
  from lb have item: "hd (fabAdders (breakdown r)) = SizeSqft (- 8) 65 (- 520)"
    and cost: "fabricationCost r = max (- 360) 450"
    by (simp_all add: samplePricing_def dimsNegative_def frontLit_def)
  from cost have cost': "fabricationCost r = 450"
    by simp
  from labor low have lab: "installLabor (breakdown r) = 285"
    by (simp add: samplePricing_def)
  from r item cost cost' lab have "\<exists>r. calculateQuote samplePricing LIGHTBOX dimsNegative []
      frontLit installNegative False False (- 3) = Inr r \<and>
      hd (fabAdders (breakdown r)) = SizeSqft (- 8) 65 (- 520) \<and>
      fabricationCost r = max (- 360) 450 \<and>
      fabricationCost r = 450 \<and>
      installLabor (breakdown r) = 285"
    by blast
  with tiers width height low show ?thesis
    by (intro conjI refl)
qed

text \<open>
  The claim C1 as stated fails: a lightbox 48 inches wide in the negative, with a depth
  of minus 3 inches, installed at minus 5 feet, gets a quote. Its raw cost of minus 360
  is raised to the minimum price.
\<close>

theorem negative_input_counterexample:
  "widthIn dimsNegative < 0 \<and> heightFeet installNegative < 0 \<and>
   calculateQuote samplePricing LIGHTBOX dimsNegative [] frontLit installNegative False False
     (- 3) = Inr quoteNegative \<and>
   fabricationCost quoteNegative = 450"
  using eval_quoteNegative
  by (simp add: dimsNegative_def installNegative_def sampleInstall_def quoteNegative_def)

text \<open>
  C9, as the code has it. A sign type that is none of the three does not stop the
  function: the fabrication cost is 0, with no line item but the rush item of amount 0.
  A lift type that is neither \<^verbatim>\<open>SCISSOR\<close> nor \<^verbatim>\<open>BOOM\<close> is treated as no lift: the lift
  cost is 0 and no lift line item is pushed.
\<close>

theorem unrecognized_values_default:
  assumes "HEIGHT_TIERS (INSTALLATION P) \<noteq> []"
  shows "\<exists>r. calculateQuote P signType dimensions text variant installConfig isRush
            hasLamination lightboxDepth = Inr r \<and>
          (signType \<noteq> CHANNEL_LETTERS \<and> signType \<noteq> LIGHTBOX \<and> signType \<noteq> WINDOW_VINYL \<longrightarrow>
             fabricationCost r = 0 \<and>
             fabAdders (breakdown r) = (if isRush then [RushOrder 0] else [])) \<and>
          (liftType installConfig \<noteq> ''SCISSOR'' \<and> liftType installConfig \<noteq> ''BOOM'' \<longrightarrow>
             installLift (breakdown r) = 0 \<and>
             \<not> list_ex isLiftItem (installAdders (breakdown r)))"
proof -
  obtain r where r: "calculateQuote P signType dimensions text variant installConfig isRush
      hasLamination lightboxDepth = Inr r"
    using calculateQuote_total [OF assms] by blast
  have fab: "signType \<noteq> CHANNEL_LETTERS \<and> signType \<noteq> LIGHTBOX \<and> signType \<noteq> WINDOW_VINYL \<longrightarrow>
      fabricationCost r = 0 \<and> fabAdders (breakdown r) = (if isRush then [RushOrder 0] else [])"
    by (simp add: calculateQuote_Inr(1,3) [OF r] fabrication_other fst_applyRush snd_applyRush)
  have lift: "liftType installConfig \<noteq> ''SCISSOR'' \<and> liftType installConfig \<noteq> ''BOOM'' \<longrightarrow>
      installLift (breakdown r) = 0 \<and> \<not> list_ex isLiftItem (installAdders (breakdown r))"
    by (simp add: quote_lift [OF r])
  show ?thesis
    by (intro exI [of _ r] conjI r fab lift)
qed

theorem unrecognized_values_default_witness:
  "HEIGHT_TIERS (INSTALLATION samplePricing) \<noteq> [] \<and>
   ''Neon'' \<noteq> CHANNEL_LETTERS \<and> ''Neon'' \<noteq> LIGHTBOX \<and> ''Neon'' \<noteq> WINDOW_VINYL \<and>
   liftType installCrane \<noteq> ''SCISSOR'' \<and> liftType installCrane \<noteq> ''BOOM'' \<and>
   (\<exists>r. calculateQuote samplePricing ''Neon'' dimsOPEN textOPEN frontLit installCrane True
          False 4 = Inr r \<and>
        fabricationCost r = 0 \<and> fabAdders (breakdown r) = [RushOrder 0] \<and>
        installLift (breakdown r) = 0)"
proof -
  have tiers: "HEIGHT_TIERS (INSTALLATION samplePricing) \<noteq> []"
    by (simp add: sample_tiers)
  have sign: "''Neon'' \<noteq> CHANNEL_LETTERS" "''Neon'' \<noteq> LIGHTBOX" "''Neon'' \<noteq> WINDOW_VINYL"
    by (simp_all add: CHANNEL_LETTERS_def LIGHTBOX_def WINDOW_VINYL_def)
  have lift: "liftType installCrane \<noteq> ''SCISSOR''" "liftType installCrane \<noteq> ''BOOM''"
    by (simp_all add: installCrane_def)
  from unrecognized_values_default [OF tiers, of "''Neon''" dimsOPEN textOPEN frontLit
      installCrane True False 4]
  have "\<exists>r. calculateQuote samplePricing ''Neon'' dimsOPEN textOPEN frontLit installCrane True
          False 4 = Inr r \<and>
        fabricationCost r = 0 \<and> fabAdders (breakdown r) = [RushOrder 0] \<and>
        installLift (breakdown r) = 0"
    using sign lift by auto
  with tiers sign lift show ?thesis
    by blast
qed

text \<open>
  The claim C9 as stated fails: the sign type \<^verbatim>\<open>Neon\<close> with the lift type \<^verbatim>\<open>CRANE\<close> gets
  a quote, with a fabrication cost of 0 and a lift cost of 0.
\<close>

theorem unrecognized_values_counterexample:
  "''Neon'' \<noteq> CHANNEL_LETTERS \<and> ''Neon'' \<noteq> LIGHTBOX \<and> ''Neon'' \<noteq> WINDOW_VINYL \<and>
   liftType installCrane = ''CRANE'' \<and>
   calculateQuote samplePricing ''Neon'' dimsOPEN textOPEN frontLit installCrane False False 4
     = Inr quoteNeon \<and>
   fabricationCost quoteNeon = 0 \<and> installLift (breakdown quoteNeon) = 0"
  using eval_quoteNeon
  by (simp add: CHANNEL_LETTERS_def LIGHTBOX_def WINDOW_VINYL_def installCrane_def
        quoteNeon_def sampleInstallResult_def)

text \<open>
  C8, as the code has it. For Channel Letters the front lit or back lit variant costs
  strictly more than the variant without lighting when the text has a letter, the
  per-letter lighting rate is positive, the raw cost of the lit variant is above the
  minimum price and the rush factor is positive; with no letter the two costs are equal.
  For a Lightbox the raw cost of the front lit variant is the raw cost of any other
  variant plus the lighting adder; when the floor binds for neither, the fabrication costs
  differ by the adder, times one plus the rush percentage under a rush order.
\<close>

theorem lighting_adder:
  "(lit = FRONT_LIT \<or> lit = BACK_LIT \<longrightarrow>
      calculateQuote P CHANNEL_LETTERS dimensions text (variant\<lparr>lighting := lit\<rparr>) installConfig
        isRush hasLamination lightboxDepth = Inr r1 \<longrightarrow>
      calculateQuote P CHANNEL_LETTERS dimensions text (variant\<lparr>lighting := NON_LIT\<rparr>)
        installConfig isRush hasLamination lightboxDepth = Inr r0 \<longrightarrow>
      (countNonWhitespace text = 0 \<longrightarrow> fabricationCost r1 = fabricationCost r0) \<and>
      (0 < countNonWhitespace text \<longrightarrow>
       0 < lightingRate (FAB_CHANNEL_LETTERS (FABRICATION P)) lit \<longrightarrow>
       CL_MIN_PRICE (FAB_CHANNEL_LETTERS (FABRICATION P))
         < specChannelLettersRaw (FAB_CHANNEL_LETTERS (FABRICATION P)) dimensions text
             (variant\<lparr>lighting := lit\<rparr>) \<longrightarrow>
       (isRush \<longrightarrow> 0 < 1 + RUSH_ORDER_PERCENT (FABRICATION P)) \<longrightarrow>
       fabricationCost r0 < fabricationCost r1)) \<and>
   (other \<noteq> FRONT_LIT \<longrightarrow>
      calculateQuote P LIGHTBOX dimensions text (variant\<lparr>lighting := FRONT_LIT\<rparr>) installConfig
        isRush hasLamination lightboxDepth = Inr b1 \<longrightarrow>
      calculateQuote P LIGHTBOX dimensions text (variant\<lparr>lighting := other\<rparr>) installConfig
        isRush hasLamination lightboxDepth = Inr b0 \<longrightarrow>
      fst (lightboxRaw (FAB_LIGHTBOX (FABRICATION P)) dimensions
             (variant\<lparr>lighting := FRONT_LIT\<rparr>) lightboxDepth) =
        fst (lightboxRaw (FAB_LIGHTBOX (FABRICATION P)) dimensions
               (variant\<lparr>lighting := other\<rparr>) lightboxDepth)
        + LIGHTING_ADDER_FRONT_LIT (FAB_LIGHTBOX (FABRICATION P)) \<and>
      (LB_MIN_PRICE (FAB_LIGHTBOX (FABRICATION P))
         \<le> fst (lightboxRaw (FAB_LIGHTBOX (FABRICATION P)) dimensions
                  (variant\<lparr>lighting := other\<rparr>) lightboxDepth) \<longrightarrow>
       LB_MIN_PRICE (FAB_LIGHTBOX (FABRICATION P))
         \<le> fst (lightboxRaw (FAB_LIGHTBOX (FABRICATION P)) dimensions
                  (variant\<lparr>lighting := FRONT_LIT\<rparr>) lightboxDepth) \<longrightarrow>
       fabricationCost b1 =
         fabricationCost b0
         + LIGHTING_ADDER_FRONT_LIT (FAB_LIGHTBOX (FABRICATION P))
           * (if isRush then 1 + RUSH_ORDER_PERCENT (FABRICATION P) else 1)))"
proof (intro conjI impI)
  let ?rules = "FAB_CHANNEL_LETTERS (FABRICATION P)"
  let ?k = "if isRush then 1 + RUSH_ORDER_PERCENT (FABRICATION P) else 1"
  let ?raw0 = "specChannelLettersRaw ?rules dimensions text (variant\<lparr>lighting := NON_LIT\<rparr>)"
  let ?raw1 = "specChannelLettersRaw ?rules dimensions text (variant\<lparr>lighting := lit\<rparr>)"
  assume r1: "calculateQuote P CHANNEL_LETTERS dimensions text (variant\<lparr>lighting := lit\<rparr>)
      installConfig isRush hasLamination lightboxDepth = Inr r1"
    and r0: "calculateQuote P CHANNEL_LETTERS dimensions text (variant\<lparr>lighting := NON_LIT\<rparr>)
      installConfig isRush hasLamination lightboxDepth = Inr r0"
  have c1: "fabricationCost r1 = max ?raw1 (CL_MIN_PRICE ?rules) * ?k"
    by (rule quote_channel_letters_cost [OF r1])
  have c0: "fabricationCost r0 = max ?raw0 (CL_MIN_PRICE ?rules) * ?k"
    by (rule quote_channel_letters_cost [OF r0])
  have raw: "?raw1 = ?raw0 + real (countNonWhitespace text) * lightingRate ?rules lit"
    by (rule specChannelLettersRaw_lit)
  {
    assume "countNonWhitespace text = 0"
    with raw have "?raw1 = ?raw0" by simp
    with c1 c0 show "fabricationCost r1 = fabricationCost r0" by simp
  }
  {
    assume n: "0 < countNonWhitespace text"
      and rate: "0 < lightingRate ?rules lit"
      and above: "CL_MIN_PRICE ?rules < ?raw1"
      and rush: "isRush \<longrightarrow> 0 < 1 + RUSH_ORDER_PERCENT (FABRICATION P)"
    from n rate have "0 < real (countNonWhitespace text) * lightingRate ?rules lit"
      by simp
    with raw have "?raw0 < ?raw1" by simp
    with above have m: "max ?raw0 (CL_MIN_PRICE ?rules) < max ?raw1 (CL_MIN_PRICE ?rules)"
      by simp
    from rush have k: "0 < ?k" by simp
    from m k have "max ?raw0 (CL_MIN_PRICE ?rules) * ?k < max ?raw1 (CL_MIN_PRICE ?rules) * ?k"
      by (rule mult_strict_right_mono)
    with c1 c0 show "fabricationCost r0 < fabricationCost r1" by simp
  }
next
  assume other: "other \<noteq> FRONT_LIT"
  then show "fst (lightboxRaw (FAB_LIGHTBOX (FABRICATION P)) dimensions
             (variant\<lparr>lighting := FRONT_LIT\<rparr>) lightboxDepth) =
        fst (lightboxRaw (FAB_LIGHTBOX (FABRICATION P)) dimensions
               (variant\<lparr>lighting := other\<rparr>) lightboxDepth)
        + LIGHTING_ADDER_FRONT_LIT (FAB_LIGHTBOX (FABRICATION P))"
    by (rule lightboxRaw_front_lit)
next
  let ?rules = "FAB_LIGHTBOX (FABRICATION P)"
  let ?raw0 = "fst (lightboxRaw ?rules dimensions (variant\<lparr>lighting := other\<rparr>) lightboxDepth)"
  let ?raw1 = "fst (lightboxRaw ?rules dimensions (variant\<lparr>lighting := FRONT_LIT\<rparr>)
                      lightboxDepth)"
  assume other: "other \<noteq> FRONT_LIT"
    and b1: "calculateQuote P LIGHTBOX dimensions text (variant\<lparr>lighting := FRONT_LIT\<rparr>)
      installConfig isRush hasLamination lightboxDepth = Inr b1"
    and b0: "calculateQuote P LIGHTBOX dimensions text (variant\<lparr>lighting := other\<rparr>)
      installConfig isRush hasLamination lightboxDepth = Inr b0"
    and f0: "LB_MIN_PRICE ?rules \<le> ?raw0"
    and f1: "LB_MIN_PRICE ?rules \<le> ?raw1"
  have raw: "?raw1 = ?raw0 + LIGHTING_ADDER_FRONT_LIT ?rules"
    using other by (rule lightboxRaw_front_lit)
  have m0: "max ?raw0 (LB_MIN_PRICE ?rules) = ?raw0"
    using f0 by simp
  have m1: "max ?raw1 (LB_MIN_PRICE ?rules) = ?raw0 + LIGHTING_ADDER_FRONT_LIT ?rules"
    using f1 raw by simp
  show "fabricationCost b1 =
         fabricationCost b0
         + LIGHTING_ADDER_FRONT_LIT ?rules
           * (if isRush then 1 + RUSH_ORDER_PERCENT (FABRICATION P) else 1)"
    unfolding quote_lightbox_cost [OF b1] quote_lightbox_cost [OF b0] m0 m1
    by (simp add: algebra_simps)
qed

theorem lighting_adder_witness:
  "(FRONT_LIT = FRONT_LIT \<or> FRONT_LIT = BACK_LIT) \<and>
   0 < countNonWhitespace textOPEN \<and>
   0 < lightingRate (FAB_CHANNEL_LETTERS (FABRICATION samplePricing)) FRONT_LIT \<and>
   CL_MIN_PRICE (FAB_CHANNEL_LETTERS (FABRICATION samplePricing))
     < specChannelLettersRaw (FAB_CHANNEL_LETTERS (FABRICATION samplePricing)) dimsOPEN textOPEN
         (nonLit\<lparr>lighting := FRONT_LIT\<rparr>) \<and>
   (\<exists>r1 r0.
      calculateQuote samplePricing CHANNEL_LETTERS dimsOPEN textOPEN
        (nonLit\<lparr>lighting := FRONT_LIT\<rparr>) sampleInstall False False 4 = Inr r1 \<and>
      calculateQuote samplePricing CHANNEL_LETTERS dimsOPEN textOPEN
        (nonLit\<lparr>lighting := NON_LIT\<rparr>) sampleInstall False False 4 = Inr r0 \<and>
      fabricationCost r0 < fabricationCost r1) \<and>
   NON_LIT \<noteq> FRONT_LIT \<and>
   LB_MIN_PRICE (FAB_LIGHTBOX (FABRICATION samplePricing))
     \<le> fst (lightboxRaw (FAB_LIGHTBOX (FABRICATION samplePricing)) dimsLarge
              (nonLit\<lparr>lighting := NON_LIT\<rparr>) 4) \<and>
   LB_MIN_PRICE (FAB_LIGHTBOX (FABRICATION samplePricing))
     \<le> fst (lightboxRaw (FAB_LIGHTBOX (FABRICATION samplePricing)) dimsLarge
              (nonLit\<lparr>lighting := FRONT_LIT\<rparr>) 4) \<and>
   (\<exists>b1 b0.
      calculateQuote samplePricing LIGHTBOX dimsLarge [] (nonLit\<lparr>lighting := FRONT_LIT\<rparr>)
        sampleInstall False False 4 = Inr b1 \<and>
      calculateQuote samplePricing LIGHTBOX dimsLarge [] (nonLit\<lparr>lighting := NON_LIT\<rparr>)
        sampleInstall False False 4 = Inr b0 \<and>
      fabricationCost b1 = fabricationCost b0 + 160)"
proof -
  let ?cl = "FAB_CHANNEL_LETTERS (FABRICATION samplePricing)"
  let ?lb = "FAB_LIGHTBOX (FABRICATION samplePricing)"
  have tiers: "HEIGHT_TIERS (INSTALLATION samplePricing) \<noteq> []"
    by (simp add: sample_tiers)
  have lit: "FRONT_LIT = FRONT_LIT \<or> FRONT_LIT = BACK_LIT"
    by simp
  have n: "0 < countNonWhitespace textOPEN"
    by (simp add: textOPEN_def isWhitespace_def)
  have rate: "0 < lightingRate ?cl FRONT_LIT"
    by (simp add: lightingRate_def samplePricing_def)
  have above: "CL_MIN_PRICE ?cl
      < specChannelLettersRaw ?cl dimsOPEN textOPEN (nonLit\<lparr>lighting := FRONT_LIT\<rparr>)"
    by (simp add: specChannelLettersRaw_def lightingRate_def samplePricing_def dimsOPEN_def
          nonLit_def textOPEN_def isWhitespace_def)
  obtain r1 where r1: "calculateQuote samplePricing CHANNEL_LETTERS dimsOPEN textOPEN
      (nonLit\<lparr>lighting := FRONT_LIT\<rparr>) sampleInstall False False 4 = Inr r1"
    using calculateQuote_total [OF tiers] by blast
  obtain r0 where r0: "calculateQuote samplePricing CHANNEL_LETTERS dimsOPEN textOPEN
      (nonLit\<lparr>lighting := NON_LIT\<rparr>) sampleInstall False False 4 = Inr r0"
    using calculateQuote_total [OF tiers] by blast
  have "fabricationCost r0 < fabricationCost r1"
    using lighting_adder [THEN conjunct1, rule_format, OF lit r1 r0, THEN conjunct2,
        rule_format, OF n rate above]
    by simp
  with r1 r0 have channel: "\<exists>r1 r0.
      calculateQuote samplePricing CHANNEL_LETTERS dimsOPEN textOPEN
        (nonLit\<lparr>lighting := FRONT_LIT\<rparr>) sampleInstall False False 4 = Inr r1 \<and>
      calculateQuote samplePricing CHANNEL_LETTERS dimsOPEN textOPEN
        (nonLit\<lparr>lighting := NON_LIT\<rparr>) sampleInstall False False 4 = Inr r0 \<and>
      fabricationCost r0 < fabricationCost r1"
    by blast
  have other: "NON_LIT \<noteq> FRONT_LIT"
    by (rule lighting_types_distinct)
  have f0: "LB_MIN_PRICE ?lb \<le> fst (lightboxRaw ?lb dimsLarge (nonLit\<lparr>lighting := NON_LIT\<rparr>) 4)"
    by (simp add: lightboxRaw_def Let_def samplePricing_def dimsLarge_def nonLit_def
          lighting_types_distinct)
  have f1: "LB_MIN_PRICE ?lb \<le> fst (lightboxRaw ?lb dimsLarge (nonLit\<lparr>lighting := FRONT_LIT\<rparr>) 4)"
    by (simp add: lightboxRaw_def Let_def samplePricing_def dimsLarge_def nonLit_def)
  obtain b1 where b1: "calculateQuote samplePricing LIGHTBOX dimsLarge []
      (nonLit\<lparr>lighting := FRONT_LIT\<rparr>) sampleInstall False False 4 = Inr b1"
    using calculateQuote_total [OF tiers] by blast
  obtain b0 where b0: "calculateQuote samplePricing LIGHTBOX dimsLarge []
      (nonLit\<lparr>lighting := NON_LIT\<rparr>) sampleInstall False False 4 = Inr b0"
    using calculateQuote_total [OF tiers] by blast
  have "fabricationCost b1 = fabricationCost b0 + 160"
    using lighting_adder [THEN conjunct2, rule_format, OF other b1 b0, THEN conjunct2,
        rule_format, OF f0 f1]
    by (simp add: samplePricing_def)
  with b1 b0 have box: "\<exists>b1 b0.
      calculateQuote samplePricing LIGHTBOX dimsLarge [] (nonLit\<lparr>lighting := FRONT_LIT\<rparr>)
        sampleInstall False False 4 = Inr b1 \<and>
      calculateQuote samplePricing LIGHTBOX dimsLarge [] (nonLit\<lparr>lighting := NON_LIT\<rparr>)
        sampleInstall False False 4 = Inr b0 \<and>
      fabricationCost b1 = fabricationCost b0 + 160"
    by blast
  show ?thesis
    by (intro conjI lit n rate above channel other f0 f1 box)
qed

text \<open>
  The claim C8 as stated fails. With an empty text the front lit and the unlit Channel
  Letters quotes both cost the minimum price of 600. For a lightbox of one square foot the
  front lit and the unlit quotes both cost the minimum price of 450, although the lighting
  adder is 160.
\<close>

theorem lighting_adder_counterexample:
  "fabricationCostOf (calculateQuote samplePricing CHANNEL_LETTERS dimsOPEN [] frontLit
     sampleInstall False False 4) = Inr 600 \<and>
   fabricationCostOf (calculateQuote samplePricing CHANNEL_LETTERS dimsOPEN [] nonLit
     sampleInstall False False 4) = Inr 600 \<and>
   fabricationCostOf (calculateQuote samplePricing LIGHTBOX dimsSmall [] frontLit
     sampleInstall False False 4) = Inr 450 \<and>
   fabricationCostOf (calculateQuote samplePricing LIGHTBOX dimsSmall [] nonLit
     sampleInstall False False 4) = Inr 450 \<and>
   LIGHTING_ADDER_FRONT_LIT (FAB_LIGHTBOX (FABRICATION samplePricing)) = 160"
  by (simp add: fabricationCostOf_def model_defs sample_defs dimsSmall_def Let_def)

end
